theory Spec2Isabelle
  imports Complex_Main
begin

section \<open>Python values, exceptions and the environment\<close>

text \<open>
  The value \<open>json.loads\<close> returns, and the payload \<open>json.dumps\<close> takes. A JSON
  object is an association list read with the first binding of a key. JSON numbers are
  Python ints here; a number with a fraction (a Python float) is outside this model.
\<close>

datatype json =
    JNull
  | JBool bool
  | JInt int
  | JStr string
  | JList "json list"
  | JDict "(string \<times> json) list"

text \<open>
  A value held by a field of a result record: a JSON value passed on untouched, or the
  float that Python's true division \<open>/\<close> returns. A float is represented by the
  rational that the double denotes.
\<close>

datatype pyval = PyJson json | PyFloat rat

datatype BedPowerStatus = On | Off

datatype BedSide = Left | Right | Both

text \<open>
  The exceptions the code can raise. \<open>KeyError_side\<close> is the KeyError of the dict
  keyed by \<open>BedSide\<close>; \<open>Exception\<close> is the plain exception the first
  copy's constructor raises; \<open>InvalidAuth\<close> is the class both copies declare.
  \<open>RequestException\<close> stands for any exception of \<open>requests.request\<close>.
\<close>

datatype exn =
    KeyError json
  | KeyError_side BedSide
  | TypeError
  | ValueError
  | AttributeError string
  | OverflowError
  | JSONDecodeError
  | RequestException
  | Exception string
  | InvalidAuth

text \<open>The two integration copies: \<open>components/8slp\<close> and \<open>components/eightslp\<close>.\<close>

datatype copy = Slp8 | Eightslp

definition BedSide_value :: "BedSide \<Rightarrow> string" where
  "BedSide_value s = (case s of Left \<Rightarrow> ''left'' | Right \<Rightarrow> ''right'' | Both \<Rightarrow> ''both'')"

text \<open>\<open>BedSide(v)\<close>: the member whose value is \<open>v\<close>, or ValueError.\<close>

definition BedSide_of :: "json \<Rightarrow> exn + BedSide" where
  "BedSide_of v =
     (if v = JStr ''left'' then Inr Left
      else if v = JStr ''right'' then Inr Right
      else if v = JStr ''both'' then Inr Both
      else Inl ValueError)"

definition CLIENT_ID :: string where
  "CLIENT_ID = ''0894c7f33bb94800a03f1f4df13a4f38''"

definition CLIENT_SECRET :: string where
  "CLIENT_SECRET = ''f0954a3ed5763ba3d06834c73731a32f15f168f47d4f164751275def86db0c76''"

definition AUTH_URI :: string where
  "AUTH_URI = ''https://auth-api.8slp.net/v1/tokens''"

definition API_BASE_URI :: string where
  "API_BASE_URI = ''https://client-api.8slp.net/v1''"

definition APP_BASE_URI :: string where
  "APP_BASE_URI = ''https://app-api.8slp.net/v1''"

subsection \<open>Operations of the Python runtime\<close>

definition bindE :: "exn + 'a \<Rightarrow> ('a \<Rightarrow> exn + 'b) \<Rightarrow> exn + 'b" where
  "bindE m f = (case m of Inl e \<Rightarrow> Inl e | Inr x \<Rightarrow> f x)"

text \<open>\<open>x[k]\<close> for a string key \<open>k\<close>: only a dict can be subscripted with a string.\<close>

definition getitem :: "json \<Rightarrow> string \<Rightarrow> exn + json" where
  "getitem x k =
     (case x of
        JDict kvs \<Rightarrow> (case map_of kvs k of None \<Rightarrow> Inl (KeyError (JStr k)) | Some v \<Rightarrow> Inr v)
      | _ \<Rightarrow> Inl TypeError)"

text \<open>Truth value of a JSON value, as \<open>if x\<close> tests it.\<close>

definition truthy :: "json \<Rightarrow> bool" where
  "truthy x =
     (case x of
        JNull \<Rightarrow> False
      | JBool b \<Rightarrow> b
      | JInt n \<Rightarrow> n \<noteq> 0
      | JStr s \<Rightarrow> s \<noteq> []
      | JList xs \<Rightarrow> xs \<noteq> []
      | JDict kvs \<Rightarrow> kvs \<noteq> [])"

text \<open>
  \<open>round(n, -1)\<close> on an int: the nearest multiple of ten, a tie going to the even
  multiple (\<open>round(45, -1) = 40\<close>, \<open>round(55, -1) = 60\<close>).
\<close>

definition round_int_m1 :: "int \<Rightarrow> int" where
  "round_int_m1 n =
     (let q = n div 10; r = n mod 10
      in if r < 5 then 10 * q
         else if r > 5 then 10 * (q + 1)
         else if even q then 10 * q else 10 * (q + 1))"

text \<open>\<open>round(x, -1)\<close>: a bool is an int; other values have no \<open>__round__\<close>.\<close>

definition py_round_m1 :: "json \<Rightarrow> exn + int" where
  "py_round_m1 x =
     (case x of
        JInt n \<Rightarrow> Inr (round_int_m1 n)
      | JBool b \<Rightarrow> Inr (round_int_m1 (if b then 1 else 0))
      | _ \<Rightarrow> Inl TypeError)"

text \<open>Number of bits of a positive int, as \<open>int.bit_length\<close> counts them.\<close>

function bit_length :: "int \<Rightarrow> nat" where
  "bit_length n = (if n \<le> 0 then 0 else Suc (bit_length (n div 2)))"
  by pat_completeness auto
termination
  by (relation "measure nat") auto

declare bit_length.simps [simp del]

text \<open>
  The double nearest to an int, given by its (integer) value: exact up to \<open>2 ^ 53\<close>
  in magnitude; beyond, rounded to 53 significant bits, a tie going to the even
  significand; OverflowError when the rounded magnitude reaches \<open>2 ^ 1024\<close>. This is
  what the true division of two ints returns when the exact quotient is that int, and the
  value of the product of two floats when the exact product is that int (there the
  overflow is raised by the \<open>int\<close> that follows).
\<close>

definition nearest_double :: "int \<Rightarrow> exn + int" where
  "nearest_double k =
     (if \<bar>k\<bar> \<le> 2 ^ 53 then Inr k
      else
        (let a = \<bar>k\<bar>;
             shift = bit_length a - 53;
             q = a div 2 ^ shift;
             r = a mod 2 ^ shift;
             half = 2 ^ (shift - 1);
             q' = (if r > half \<or> (r = half \<and> odd q) then q + 1 else q);
             v = q' * 2 ^ shift
         in if v \<ge> 2 ^ 1024 then Inl OverflowError else Inr (sgn k * v)))"

text \<open>
  \<open>round(x, -1) / 10\<close>: the true division of an int gives a float. The rounded int is
  a multiple of ten, so the exact quotient is the int \<open>r div 10\<close>.
\<close>

definition level_of :: "json \<Rightarrow> exn + pyval" where
  "level_of x =
     bindE (py_round_m1 x) (\<lambda>r.
     bindE (nearest_double (r div 10)) (\<lambda>k. Inr (PyFloat (of_int k))))"

text \<open>
  The temperature argument of \<open>set_temp\<close> and \<open>set_temperature\<close>: an int (the
  annotation), or a float whose value is the given int, as the climate entity passes
  (\<open>3.0\<close> is \<open>TFloat 3\<close>). A float with a fraction is outside this model.
\<close>

datatype temp = TInt int | TFloat int

text \<open>\<open>int(temperature * 10)\<close>.\<close>

definition scaled_level :: "temp \<Rightarrow> exn + int" where
  "scaled_level t =
     (case t of
        TInt n \<Rightarrow> Inr (n * 10)
      | TFloat k \<Rightarrow> nearest_double (k * 10))"

text \<open>Decimal digits of an int, as \<open>str\<close> prints it.\<close>

fun digits :: "nat \<Rightarrow> string" where
  "digits n = (if n < 10 then [char_of (48 + n)] else digits (n div 10) @ [char_of (48 + n mod 10)])"

declare digits.simps [simp del]

definition str_int :: "int \<Rightarrow> string" where
  "str_int n = (if n < 0 then CHR ''-'' # digits (nat (- n)) else digits (nat n))"

text \<open>
  Time: a \<open>datetime\<close> is its number of microseconds since 0001-01-01 00:00:00, a
  \<open>timedelta\<close> a number of microseconds. \<open>timedelta(0, s)\<close> raises OverflowError beyond
  999999999 days, and a datetime outside the years 1 to 9999 cannot be built.
\<close>

definition timedelta_seconds :: "int \<Rightarrow> exn + int" where
  "timedelta_seconds s =
     (if \<bar>s div 86400\<bar> > 999999999 then Inl OverflowError else Inr (s * 1000000))"

definition datetime_add :: "int \<Rightarrow> int \<Rightarrow> exn + int" where
  "datetime_add d td =
     (if 0 \<le> d + td \<and> d + td < 3652059 * 86400000000 then Inr (d + td) else Inl OverflowError)"

text \<open>\<open>x - 100\<close> for the \<open>expires_in\<close> of a token reply.\<close>

definition minus_100 :: "json \<Rightarrow> exn + int" where
  "minus_100 x =
     (case x of
        JInt n \<Rightarrow> Inr (n - 100)
      | JBool b \<Rightarrow> Inr ((if b then 1 else 0) - 100)
      | _ \<Rightarrow> Inl TypeError)"

subsection \<open>The environment\<close>

text \<open>One call of \<open>requests.request(method, url, headers=..., data=..., timeout=60)\<close>.\<close>

record request =
  req_method :: string
  req_url :: string
  req_headers :: "(string \<times> string) list"
  req_data :: json
  req_timeout :: nat

text \<open>
  What comes back: \<open>requests.request\<close> raises, or the content is not JSON, or
  \<open>json.loads\<close> returns a value.
\<close>

datatype reply = Failure | Garbage | Reply json

text \<open>
  The environment of a run: the requests sent so far, the service (its reply to a request
  may depend on the requests before it), the clock (\<open>clock w i\<close> is what the
  \<open>i\<close>-th call of \<open>datetime.now()\<close> returns) and the text \<open>str\<close> gives for a
  list or a dict, which the code never builds itself.
\<close>

record world =
  sent :: "request list"
  server :: "request list \<Rightarrow> request \<Rightarrow> reply"
  ticks :: nat
  clock :: "nat \<Rightarrow> int"
  container_str :: "json \<Rightarrow> string"

definition datetime_now :: "world \<Rightarrow> int \<times> world" where
  "datetime_now w = (clock w (ticks w), w\<lparr>ticks := Suc (ticks w)\<rparr>)"

text \<open>\<open>str(x)\<close>, as an f-string formats a value.\<close>

definition py_str :: "world \<Rightarrow> json \<Rightarrow> string" where
  "py_str w x =
     (case x of
        JNull \<Rightarrow> ''None''
      | JBool b \<Rightarrow> (if b then ''True'' else ''False'')
      | JInt n \<Rightarrow> str_int n
      | JStr s \<Rightarrow> s
      | _ \<Rightarrow> container_str w x)"

text \<open>An argument annotated \<open>str\<close> that may be \<open>None\<close>.\<close>

definition json_of :: "string option \<Rightarrow> json" where
  "json_of x = (case x of None \<Rightarrow> JNull | Some s \<Rightarrow> JStr s)"

section \<open>The gateway: \<open>eightslp_api.py\<close>\<close>

record LoginResponse =
  access_token :: json
  token_type :: json
  expires_in :: json
  refresh_token :: json
  user_id :: json

record GetDeviceResponse =
  left_status :: BedPowerStatus
  left_target :: pyval
  left_current :: pyval
  left_duration :: pyval
  right_status :: BedPowerStatus
  right_target :: pyval
  right_current :: pyval
  right_duration :: pyval

record GetUserResponse =
  device_ids :: json
  current_device :: json
  current_side :: BedSide

text \<open>
  \<open>send_request\<close>. The test \<open>object is None\<close> of the source compares the builtin type
  \<open>object\<close> with \<open>None\<close> and is always false, so every request goes through the branch
  that sends \<open>json.dumps(payload)\<close> with a timeout of 60. \<open>"Bearer " + auth_header\<close>
  raises TypeError, before anything is sent, when the header is neither \<open>None\<close> nor a
  string.
\<close>

definition send_request :: "string \<Rightarrow> string \<Rightarrow> json \<Rightarrow> json \<Rightarrow> world \<Rightarrow> (exn + json) \<times> world" where
  "send_request url method payload auth_header w =
     (case (case auth_header of
              JNull \<Rightarrow> Inr [(''Content-Type'', ''application/json'')]
            | JStr t \<Rightarrow> Inr [(''Content-Type'', ''application/json''),
                               (''Authorization'', ''Bearer '' @ t)]
            | _ \<Rightarrow> Inl TypeError) of
        Inl e \<Rightarrow> (Inl e, w)
      | Inr headers \<Rightarrow>
          (let req = \<lparr>req_method = method, req_url = url, req_headers = headers,
                      req_data = payload, req_timeout = 60\<rparr>;
               w' = w\<lparr>sent := sent w @ [req]\<rparr>
           in case server w (sent w) req of
                Failure \<Rightarrow> (Inl RequestException, w')
              | Garbage \<Rightarrow> (Inl JSONDecodeError, w')
              | Reply res \<Rightarrow> (Inr res, w')))"

definition login_payload :: "string \<Rightarrow> string \<Rightarrow> json" where
  "login_payload username password =
     JDict [(''username'', JStr username), (''password'', JStr password),
            (''grant_type'', JStr ''password''), (''client_id'', JStr CLIENT_ID),
            (''client_secret'', JStr CLIENT_SECRET)]"

definition login :: "string \<Rightarrow> string \<Rightarrow> world \<Rightarrow> (exn + LoginResponse) \<times> world" where
  "login username password w =
     (case send_request AUTH_URI ''POST'' (login_payload username password) JNull w of
        (Inl e, w') \<Rightarrow> (Inl e, w')
      | (Inr res, w') \<Rightarrow>
          (bindE (getitem res ''access_token'') (\<lambda>a.
           bindE (getitem res ''token_type'') (\<lambda>t.
           bindE (getitem res ''expires_in'') (\<lambda>x.
           bindE (getitem res ''refresh_token'') (\<lambda>r.
           bindE (getitem res ''userId'') (\<lambda>u.
             Inr \<lparr>access_token = a, token_type = t, expires_in = x,
                  refresh_token = r, user_id = u\<rparr>))))), w'))"

definition refresh_payload :: "string option \<Rightarrow> json" where
  "refresh_payload rt =
     JDict [(''refresh_token'', json_of rt), (''grant_type'', JStr ''refresh_token''),
            (''client_id'', JStr CLIENT_ID), (''client_secret'', JStr CLIENT_SECRET)]"

definition refresh :: "string option \<Rightarrow> world \<Rightarrow> (exn + LoginResponse) \<times> world" where
  "refresh rt w =
     (case send_request AUTH_URI ''POST'' (refresh_payload rt) JNull w of
        (Inl e, w') \<Rightarrow> (Inl e, w')
      | (Inr res, w') \<Rightarrow>
          (bindE (getitem res ''access_token'') (\<lambda>a.
           bindE (getitem res ''token_type'') (\<lambda>t.
           bindE (getitem res ''expires_in'') (\<lambda>x.
           bindE (getitem res ''refresh_token'') (\<lambda>r.
             Inr \<lparr>access_token = a, token_type = t, expires_in = x,
                  refresh_token = r, user_id = JNull\<rparr>)))), w'))"

text \<open>
  \<open>set_temperature\<close>. The first copy builds the payload and adds the key
  \<open>currentState\<close> when \<open>power_on\<close>; the second writes both payloads out.
\<close>

definition set_temperature ::
  "copy \<Rightarrow> json \<Rightarrow> temp \<Rightarrow> json \<Rightarrow> bool \<Rightarrow> world \<Rightarrow> (exn + unit) \<times> world" where
  "set_temperature cp uid temperature auth_token power_on w =
     (case scaled_level temperature of
        Inl e \<Rightarrow> (Inl e, w)
      | Inr level \<Rightarrow>
     (let payload =
            (case cp of
               Slp8 \<Rightarrow>
                 (let payload = [(''currentLevel'', JInt level)]
                  in if power_on
                     then JDict (payload @ [(''currentState'', JDict [(''type'', JStr ''smart'')])])
                     else JDict payload)
             | Eightslp \<Rightarrow>
                 (if power_on
                  then JDict [(''currentLevel'', JInt level),
                              (''currentState'', JDict [(''type'', JStr ''smart'')])]
                  else JDict [(''currentLevel'', JInt level)]))
      in case send_request (APP_BASE_URI @ ''/users/'' @ py_str w uid @ ''/temperature'')
                ''PUT'' payload auth_token w of
           (Inl e, w') \<Rightarrow> (Inl e, w')
         | (Inr res, w') \<Rightarrow> (Inr (), w')))"

definition turn_off :: "json \<Rightarrow> json \<Rightarrow> world \<Rightarrow> (exn + unit) \<times> world" where
  "turn_off uid auth_token w =
     (case send_request (API_BASE_URI @ ''/users/'' @ py_str w uid @ ''/temperature'')
             ''PUT'' (JDict [(''currentState'', JDict [(''type'', JStr ''off'')])]) auth_token w of
        (Inl e, w') \<Rightarrow> (Inl e, w')
      | (Inr res, w') \<Rightarrow> (Inr (), w'))"

definition turn_on :: "json \<Rightarrow> json \<Rightarrow> world \<Rightarrow> (exn + unit) \<times> world" where
  "turn_on uid auth_token w =
     (case send_request (APP_BASE_URI @ ''/users/'' @ py_str w uid @ ''/temperature'')
             ''PUT'' (JDict [(''currentState'', JDict [(''type'', JStr ''smart'')])]) auth_token w of
        (Inl e, w') \<Rightarrow> (Inl e, w')
      | (Inr res, w') \<Rightarrow> (Inr (), w'))"

definition get_user :: "json \<Rightarrow> json \<Rightarrow> world \<Rightarrow> (exn + GetUserResponse) \<times> world" where
  "get_user uid auth_token w =
     (case send_request (API_BASE_URI @ ''/users/'' @ py_str w uid) ''GET'' JNull auth_token w of
        (Inl e, w') \<Rightarrow> (Inl e, w')
      | (Inr res, w') \<Rightarrow>
          (bindE (getitem res ''user'') (\<lambda>u1.
           bindE (getitem u1 ''currentDevice'') (\<lambda>d1.
           bindE (getitem d1 ''side'') (\<lambda>sv.
           bindE (BedSide_of sv) (\<lambda>side.
           bindE (getitem res ''user'') (\<lambda>u2.
           bindE (getitem u2 ''devices'') (\<lambda>devs.
           bindE (getitem res ''user'') (\<lambda>u3.
           bindE (getitem u3 ''currentDevice'') (\<lambda>d3.
           bindE (getitem d3 ''id'') (\<lambda>i.
             Inr \<lparr>device_ids = devs, current_device = i, current_side = side\<rparr>))))))))), w'))"

text \<open>
  \<open>get_device\<close>. Both copies pass the eight values to \<open>GetDeviceResponse\<close> by
  position, the right side as status, target level, current level, duration. The second
  copy declares the fields in that order; the first declares \<open>right_duration\<close> before
  \<open>right_current\<close>, so there the seventh value (the level) lands in
  \<open>right_duration\<close> and the eighth (the duration) in \<open>right_current\<close>.
\<close>

definition get_device :: "copy \<Rightarrow> json \<Rightarrow> json \<Rightarrow> world \<Rightarrow> (exn + GetDeviceResponse) \<times> world" where
  "get_device cp device_id auth_token w =
     (case send_request (API_BASE_URI @ ''/devices/'' @ py_str w device_id) ''GET'' JNull auth_token w of
        (Inl e, w') \<Rightarrow> (Inl e, w')
      | (Inr res, w') \<Rightarrow>
          (bindE (getitem res ''result'') (\<lambda>dev.
           bindE (getitem dev ''leftNowHeating'') (\<lambda>lh.
           bindE (getitem dev ''rightNowHeating'') (\<lambda>rh.
           bindE (getitem dev ''leftTargetHeatingLevel'') (\<lambda>x1.
           bindE (level_of x1) (\<lambda>v2.
           bindE (getitem dev ''leftHeatingLevel'') (\<lambda>x2.
           bindE (level_of x2) (\<lambda>v3.
           bindE (getitem dev ''leftHeatingDuration'') (\<lambda>v4.
           bindE (getitem dev ''rightTargetHeatingLevel'') (\<lambda>x3.
           bindE (level_of x3) (\<lambda>v6.
           bindE (getitem dev ''rightHeatingLevel'') (\<lambda>x4.
           bindE (level_of x4) (\<lambda>v7.
           bindE (getitem dev ''rightHeatingDuration'') (\<lambda>v8.
             Inr (case cp of
                    Slp8 \<Rightarrow>
                      \<lparr>left_status = (if truthy lh then On else Off),
                       left_target = v2, left_current = v3, left_duration = PyJson v4,
                       right_status = (if truthy rh then On else Off),
                       right_target = v6, right_current = PyJson v8, right_duration = v7\<rparr>
                  | Eightslp \<Rightarrow>
                      \<lparr>left_status = (if truthy lh then On else Off),
                       left_target = v2, left_current = v3, left_duration = PyJson v4,
                       right_status = (if truthy rh then On else Off),
                       right_target = v6, right_current = v7, right_duration = PyJson v8\<rparr>)))))))))))))), w'))"

text \<open>
  The dict \<open>get_device_names\<close> builds is keyed by JSON values. A list or a dict is
  unhashable (TypeError); \<open>True\<close> and \<open>1\<close>, \<open>False\<close> and \<open>0\<close> are the same key.
\<close>

definition hash_key :: "json \<Rightarrow> exn + json" where
  "hash_key k =
     (case k of
        JList xs \<Rightarrow> Inl TypeError
      | JDict kvs \<Rightarrow> Inl TypeError
      | JBool b \<Rightarrow> Inr (JInt (if b then 1 else 0))
      | _ \<Rightarrow> Inr k)"

text \<open>
  \<open>for dev in devs\<close>: a list gives its elements, a dict its keys, a string its
  characters; anything else is not iterable.
\<close>

definition iterate :: "json \<Rightarrow> exn + json list" where
  "iterate devs =
     (case devs of
        JList xs \<Rightarrow> Inr xs
      | JDict kvs \<Rightarrow> Inr (map (\<lambda>kv. JStr (fst kv)) kvs)
      | JStr s \<Rightarrow> Inr (map (\<lambda>c. JStr [c]) s)
      | _ \<Rightarrow> Inl TypeError)"

text \<open>
  The loop body \<open>output[dev["deviceId"]] = dev["friendlyName"]\<close>: the right-hand side
  is evaluated first, then the key, then the key is hashed.
\<close>

fun names_loop :: "json list \<Rightarrow> (json \<rightharpoonup> json) \<Rightarrow> exn + (json \<rightharpoonup> json)" where
  "names_loop [] output = Inr output"
| "names_loop (dev # devs) output =
     bindE (getitem dev ''friendlyName'') (\<lambda>v.
     bindE (getitem dev ''deviceId'') (\<lambda>k.
     bindE (hash_key k) (\<lambda>k'. names_loop devs (output(k' \<mapsto> v)))))"

definition get_device_names :: "json \<Rightarrow> json \<Rightarrow> world \<Rightarrow> (exn + (json \<rightharpoonup> json)) \<times> world" where
  "get_device_names uid auth_token w =
     (case send_request (APP_BASE_URI @ ''/household/users/'' @ py_str w uid @ ''/devices'')
             ''GET'' JNull auth_token w of
        (Inl e, w') \<Rightarrow> (Inl e, w')
      | (Inr res, w') \<Rightarrow>
          (bindE (getitem res ''devices'') (\<lambda>devs.
           bindE (iterate devs) (\<lambda>xs. names_loop xs Map.empty)), w'))"

text \<open>\<open>names[key]\<close> on that dict.\<close>

definition names_getitem :: "(json \<rightharpoonup> json) \<Rightarrow> json \<Rightarrow> exn + json" where
  "names_getitem names key =
     bindE (hash_key key) (\<lambda>k. case names k of None \<Rightarrow> Inl (KeyError key) | Some v \<Rightarrow> Inr v)"

section \<open>The session manager: \<open>eightslp_client.py\<close>\<close>

text \<open>
  \<open>BedStatus\<close>: \<open>priv_side\<close> and \<open>priv_user_id\<close> are the attributes \<open>_side\<close> and
  \<open>_user_id\<close>, which only the constructor assigns and the properties \<open>side\<close> and
  \<open>user_id\<close> return.
\<close>

record BedStatus =
  status :: BedPowerStatus
  temperature :: pyval
  target :: pyval
  priv_side :: BedSide
  priv_user_id :: "string option"

text \<open>
  A \<open>Client\<close> instance: the attributes \<open>_access_token\<close>, \<open>_refresh_token\<close>,
  \<open>_account_user_id\<close>, \<open>_expires_at\<close> and \<open>_bed_name\<close> (unset until
  \<open>initialize\<close> assigns it). The annotation of the two constructor arguments is
  \<open>str\<close>; \<open>None\<close> is the value the first copy tests for.
\<close>

record Client =
  priv_access_token :: json
  priv_refresh_token :: "string option"
  priv_account_user_id :: "string option"
  priv_expires_at :: int
  priv_bed_name :: "json option"

text \<open>
  The store. \<open>sides = dict[BedSide, BedStatus]()\<close> is evaluated once, in the body of
  class \<open>Client\<close>: the dict is an attribute of the class, no method assigns
  \<open>self.sides\<close>, and \<open>self.sides\<close> on any instance is that one dict. It maps a side
  to a \<open>BedStatus\<close> object, here the object's address in \<open>heap\<close>.
\<close>

record store =
  Client_sides :: "BedSide \<rightharpoonup> nat"
  heap :: "nat \<rightharpoonup> BedStatus"
  next_addr :: nat

text \<open>\<open>self.sides\<close>, read on the instance \<open>self\<close>.\<close>

definition sides :: "Client \<Rightarrow> store \<Rightarrow> (BedSide \<rightharpoonup> nat)" where
  "sides self st = Client_sides st"

text \<open>\<open>BedStatus(side, status, temperature, user_id, target)\<close> makes a new object.\<close>

definition BedStatus_new ::
  "BedSide \<Rightarrow> BedPowerStatus \<Rightarrow> pyval \<Rightarrow> string option \<Rightarrow> pyval \<Rightarrow> store \<Rightarrow> nat \<times> store" where
  "BedStatus_new sd stat temp uid tgt st =
     (next_addr st,
      st\<lparr>heap := (heap st)(next_addr st \<mapsto>
            \<lparr>status = stat, temperature = temp, target = tgt, priv_side = sd, priv_user_id = uid\<rparr>),
         next_addr := Suc (next_addr st)\<rparr>)"

text \<open>\<open>self.sides[side] = obj\<close>.\<close>

definition sides_setitem :: "BedSide \<Rightarrow> nat \<Rightarrow> store \<Rightarrow> store" where
  "sides_setitem sd a st = st\<lparr>Client_sides := (Client_sides st)(sd \<mapsto> a)\<rparr>"

text \<open>An attribute assignment on the object at an address.\<close>

definition setattr :: "nat \<Rightarrow> (BedStatus \<Rightarrow> BedStatus) \<Rightarrow> store \<Rightarrow> store" where
  "setattr a f st = st\<lparr>heap := (heap st)(a := map_option f (heap st a))\<rparr>"

text \<open>
  \<open>Client.__init__\<close>. The first copy raises when a refresh token is given without a
  user id, before it reads the clock; the second copy has no check.
\<close>

definition Client_init ::
  "copy \<Rightarrow> string option \<Rightarrow> string option \<Rightarrow> world \<Rightarrow> (exn + Client) \<times> world" where
  "Client_init cp rt uid w =
     (if cp = Slp8 \<and> rt \<noteq> None \<and> uid = None
      then (Inl (Exception ''user_id is required with refresh_token''), w)
      else
        (let (now, w1) = datetime_now w
         in case datetime_add now (- 100000000) of
              Inl e \<Rightarrow> (Inl e, w1)
            | Inr t \<Rightarrow>
                (Inr \<lparr>priv_access_token = (case cp of Slp8 \<Rightarrow> JNull | Eightslp \<Rightarrow> JStr []),
                      priv_refresh_token = rt,
                      priv_account_user_id = uid,
                      priv_expires_at = t,
                      priv_bed_name = None\<rparr>, w1)))"

text \<open>
  \<open>Client._token\<close>. The clock is read once for the test and once more, after the
  refresh, for the new expiry; the access token is stored before the expiry is computed.
\<close>

definition Client_token :: "Client \<Rightarrow> world \<Rightarrow> (exn + json) \<times> Client \<times> world" where
  "Client_token self w =
     (let (now, w1) = datetime_now w
      in if now > priv_expires_at self
         then (case refresh (priv_refresh_token self) w1 of
                 (Inl e, w2) \<Rightarrow> (Inl e, self, w2)
               | (Inr res, w2) \<Rightarrow>
                   (let self1 = self\<lparr>priv_access_token := access_token res\<rparr>;
                        (now2, w3) = datetime_now w2
                    in case bindE (minus_100 (expires_in res)) (\<lambda>s.
                            bindE (timedelta_seconds s) (\<lambda>td. datetime_add now2 td)) of
                         Inl e \<Rightarrow> (Inl e, self1, w3)
                       | Inr t \<Rightarrow>
                           (Inr (priv_access_token self1), self1\<lparr>priv_expires_at := t\<rparr>, w3)))
         else (Inr (priv_access_token self), self, w1))"

text \<open>
  \<open>self.sides[side]\<close>: the address and the object, or KeyError. (An address without an
  object does not occur in a run; it is read as a missing key.)
\<close>

definition sides_getitem :: "Client \<Rightarrow> store \<Rightarrow> BedSide \<Rightarrow> exn + nat \<times> BedStatus" where
  "sides_getitem self st sd =
     (case sides self st sd of
        None \<Rightarrow> Inl (KeyError_side sd)
      | Some a \<Rightarrow> (case heap st a of None \<Rightarrow> Inl (KeyError_side sd) | Some b \<Rightarrow> Inr (a, b)))"

text \<open>
  \<open>Client.initialize\<close>. In the last assignment of the first copy the key is written
  \<open>BedSide.right\<close>; the enum has the members \<open>Left\<close>, \<open>Right\<close> and \<open>Both\<close>, so
  the attribute lookup raises AttributeError, after the right-hand side has been built.
\<close>

definition initialize ::
  "copy \<Rightarrow> Client \<Rightarrow> store \<Rightarrow> world \<Rightarrow> (exn + unit) \<times> Client \<times> store \<times> world" where
  "initialize cp self st w =
     (case Client_token self w of
        (Inl e, self1, w1) \<Rightarrow> (Inl e, self1, st, w1)
      | (Inr t1, self1, w1) \<Rightarrow>
     (case get_user (json_of (priv_account_user_id self1)) t1 w1 of
        (Inl e, w2) \<Rightarrow> (Inl e, self1, st, w2)
      | (Inr user, w2) \<Rightarrow>
     (case Client_token self1 w2 of
        (Inl e, self2, w3) \<Rightarrow> (Inl e, self2, st, w3)
      | (Inr t2, self2, w3) \<Rightarrow>
     (case get_device cp (current_device user) t2 w3 of
        (Inl e, w4) \<Rightarrow> (Inl e, self2, st, w4)
      | (Inr device, w4) \<Rightarrow>
     (let guest_side = (if current_side user = Right then Left else Right);
          guest_user_id =
            ''guest-'' @ py_str w4 (current_device user) @ ''-'' @ BedSide_value guest_side
      in
     (case Client_token self2 w4 of
        (Inl e, self3, w5) \<Rightarrow> (Inl e, self3, st, w5)
      | (Inr t3, self3, w5) \<Rightarrow>
     (case get_device_names (json_of (priv_account_user_id self3)) t3 w5 of
        (Inl e, w6) \<Rightarrow> (Inl e, self3, st, w6)
      | (Inr names, w6) \<Rightarrow>
     (case names_getitem names (current_device user) of
        Inl e \<Rightarrow> (Inl e, self3, st, w6)
      | Inr name \<Rightarrow>
     (let self4 = self3\<lparr>priv_bed_name := Some name\<rparr>
      in if current_side user = Left
         then
           (let (a1, st1) = BedStatus_new Left (left_status device) (left_current device)
                              (priv_account_user_id self4) (left_target device) st;
                st2 = sides_setitem Left a1 st1;
                (a2, st3) = BedStatus_new Right (right_status device) (right_current device)
                              (Some guest_user_id) (right_target device) st2
            in (Inr (), self4, sides_setitem Right a2 st3, w6))
         else
           (let (a1, st1) = BedStatus_new Left (left_status device) (left_current device)
                              (Some guest_user_id) (left_target device) st;
                st2 = sides_setitem Left a1 st1;
                (a2, st3) = BedStatus_new Right (right_status device) (right_current device)
                              (priv_account_user_id self4) (right_target device) st2
            in case cp of
                 Slp8 \<Rightarrow> (Inl (AttributeError ''right''), self4, st3, w6)
               | Eightslp \<Rightarrow> (Inr (), self4, sides_setitem Right a2 st3, w6)))))))))))"

text \<open>
  \<open>Client.refresh_state\<close>: three assignments on the object of the right side, then three
  on the object of the left side; each looks the side up first.
\<close>

definition refresh_state ::
  "copy \<Rightarrow> Client \<Rightarrow> store \<Rightarrow> world \<Rightarrow> (exn + unit) \<times> Client \<times> store \<times> world" where
  "refresh_state cp self st w =
     (case Client_token self w of
        (Inl e, self1, w1) \<Rightarrow> (Inl e, self1, st, w1)
      | (Inr t1, self1, w1) \<Rightarrow>
     (case get_user (json_of (priv_account_user_id self1)) t1 w1 of
        (Inl e, w2) \<Rightarrow> (Inl e, self1, st, w2)
      | (Inr user, w2) \<Rightarrow>
     (case Client_token self1 w2 of
        (Inl e, self2, w3) \<Rightarrow> (Inl e, self2, st, w3)
      | (Inr t2, self2, w3) \<Rightarrow>
     (case get_device cp (current_device user) t2 w3 of
        (Inl e, w4) \<Rightarrow> (Inl e, self2, st, w4)
      | (Inr device, w4) \<Rightarrow>
     (case sides_getitem self2 st Right of
        Inl e \<Rightarrow> (Inl e, self2, st, w4)
      | Inr (r, _) \<Rightarrow>
     (let st1 = setattr r (\<lambda>b. b\<lparr>status := right_status device\<rparr>) st;
          st2 = setattr r (\<lambda>b. b\<lparr>temperature := right_current device\<rparr>) st1;
          st3 = setattr r (\<lambda>b. b\<lparr>target := right_target device\<rparr>) st2
      in
     (case sides_getitem self2 st3 Left of
        Inl e \<Rightarrow> (Inl e, self2, st3, w4)
      | Inr (l, _) \<Rightarrow>
     (let st4 = setattr l (\<lambda>b. b\<lparr>status := left_status device\<rparr>) st3;
          st5 = setattr l (\<lambda>b. b\<lparr>temperature := left_current device\<rparr>) st4;
          st6 = setattr l (\<lambda>b. b\<lparr>target := left_target device\<rparr>) st5
      in (Inr (), self2, st6, w4)))))))))"

text \<open>
  \<open>Client.set_temp\<close>. The side is looked up first; the
  arguments of \<open>set_temperature\<close> are evaluated in order, \<open>self._token()\<close> third.
\<close>

definition set_temp ::
  "copy \<Rightarrow> Client \<Rightarrow> store \<Rightarrow> BedSide \<Rightarrow> temp \<Rightarrow> world \<Rightarrow> (exn + unit) \<times> Client \<times> world" where
  "set_temp cp self st sd temperature' w =
     (case sides_getitem self st sd of
        Inl e \<Rightarrow> (Inl e, self, w)
      | Inr (_, state) \<Rightarrow>
          (let send_power_on = (status state = Off)
           in case Client_token self w of
                (Inl e, self1, w1) \<Rightarrow> (Inl e, self1, w1)
              | (Inr t, self1, w1) \<Rightarrow>
                  (case set_temperature cp (json_of (priv_user_id state)) temperature' t
                          send_power_on w1 of
                     (r, w2) \<Rightarrow> (r, self1, w2))))"

text \<open>\<open>Client.set_power\<close>.\<close>

definition set_power ::
  "Client \<Rightarrow> store \<Rightarrow> BedSide \<Rightarrow> BedPowerStatus \<Rightarrow> world \<Rightarrow> (exn + unit) \<times> Client \<times> world" where
  "set_power self st sd target_state w =
     (case sides_getitem self st sd of
        Inl e \<Rightarrow> (Inl e, self, w)
      | Inr (_, state) \<Rightarrow>
          (case Client_token self w of
             (Inl e, self1, w1) \<Rightarrow> (Inl e, self1, w1)
           | (Inr t, self1, w1) \<Rightarrow>
               (case (if target_state = Off
                      then turn_off (json_of (priv_user_id state)) t w1
                      else turn_on (json_of (priv_user_id state)) t w1) of
                  (r, w2) \<Rightarrow> (r, self1, w2))))"

text \<open>The property \<open>bed_name\<close>: the attribute exists once \<open>initialize\<close> has set it.\<close>

definition bed_name :: "Client \<Rightarrow> exn + json" where
  "bed_name self =
     (case priv_bed_name self of None \<Rightarrow> Inl (AttributeError ''_bed_name'') | Some n \<Rightarrow> Inr n)"

text \<open>
  The four operations the host calls on a client, and the run of one of them from a
  client, a store and an environment. \<open>set_temp\<close> and \<open>set_power\<close> leave the
  store as it is.
\<close>

datatype operation =
    Initialize
  | Refresh_state
  | Set_temp BedSide temp
  | Set_power BedSide BedPowerStatus

definition run_op ::
  "copy \<Rightarrow> operation \<Rightarrow> Client \<Rightarrow> store \<Rightarrow> world \<Rightarrow> (exn + unit) \<times> Client \<times> store \<times> world" where
  "run_op cp op self st w =
     (case op of
        Initialize \<Rightarrow> initialize cp self st w
      | Refresh_state \<Rightarrow> refresh_state cp self st w
      | Set_temp sd t \<Rightarrow>
          (case set_temp cp self st sd t w of (r, self', w') \<Rightarrow> (r, self', st, w'))
      | Set_power sd p \<Rightarrow>
          (case set_power self st sd p w of (r, self', w') \<Rightarrow> (r, self', st, w')))"

text \<open>
  How many times the body of an operation calls \<open>_token\<close>, and whether the side an
  operation names is in the side map (\<open>set_temp\<close> and \<open>set_power\<close> raise KeyError
  before they call \<open>_token\<close> when it is not).
\<close>

definition token_calls :: "operation \<Rightarrow> nat" where
  "token_calls op =
     (case op of Initialize \<Rightarrow> 3 | Refresh_state \<Rightarrow> 2 | Set_temp sd t \<Rightarrow> 1 | Set_power sd p \<Rightarrow> 1)"

definition side_known :: "operation \<Rightarrow> Client \<Rightarrow> store \<Rightarrow> bool" where
  "side_known op self st =
     (case op of
        Set_temp sd t \<Rightarrow> (case sides_getitem self st sd of Inl e \<Rightarrow> False | Inr x \<Rightarrow> True)
      | Set_power sd p \<Rightarrow> (case sides_getitem self st sd of Inl e \<Rightarrow> False | Inr x \<Rightarrow> True)
      | _ \<Rightarrow> True)"

section \<open>A concrete service\<close>

text \<open>
  Replies of a service with one user \<open>u1\<close> on the side \<open>sd\<close> of one device \<open>d1\<close>
  named \<open>Bed\<close>, which grants tokens with the lifetime \<open>lifetime\<close>. The device reports
  the left level 42 (target 30) and the right level 55 (target -20), with the right side
  heating for 7.
\<close>

definition token_reply :: "int \<Rightarrow> json" where
  "token_reply lifetime =
     JDict [(''access_token'', JStr ''tok''), (''token_type'', JStr ''bearer''),
            (''expires_in'', JInt lifetime), (''refresh_token'', JStr ''r2'')]"

definition user_reply :: "string \<Rightarrow> json" where
  "user_reply sd =
     JDict [(''user'',
        JDict [(''devices'', JList [JStr ''d1'']),
               (''currentDevice'', JDict [(''id'', JStr ''d1''), (''side'', JStr sd)])])]"

definition device_reply :: json where
  "device_reply =
     JDict [(''result'',
        JDict [(''leftNowHeating'', JBool True), (''rightNowHeating'', JBool False),
               (''leftTargetHeatingLevel'', JInt 30), (''leftHeatingLevel'', JInt 42),
               (''leftHeatingDuration'', JInt 0),
               (''rightTargetHeatingLevel'', JInt (- 20)), (''rightHeatingLevel'', JInt 55),
               (''rightHeatingDuration'', JInt 7)])]"

definition names_reply :: json where
  "names_reply =
     JDict [(''devices'',
        JList [JDict [(''deviceId'', JStr ''d1''), (''friendlyName'', JStr ''Bed'')]])]"

definition demo_server :: "string \<Rightarrow> int \<Rightarrow> request list \<Rightarrow> request \<Rightarrow> reply" where
  "demo_server sd lifetime hist req =
     (if req_url req = ''https://auth-api.8slp.net/v1/tokens'' then Reply (token_reply lifetime)
      else if req_url req = ''https://client-api.8slp.net/v1/users/u1'' then Reply (user_reply sd)
      else if req_url req = ''https://client-api.8slp.net/v1/devices/d1'' then Reply device_reply
      else if req_url req = ''https://app-api.8slp.net/v1/household/users/u1/devices''
        then Reply names_reply
      else Reply (JDict []))"

text \<open>A clock that advances by one second at each reading.\<close>

definition demo_clock :: "nat \<Rightarrow> int" where
  "demo_clock i = 63900000000000000 + int i * 1000000"

definition demo_world :: "string \<Rightarrow> int \<Rightarrow> world" where
  "demo_world sd lifetime =
     \<lparr>sent = [], server = demo_server sd lifetime, ticks = 0, clock = demo_clock,
      container_str = (\<lambda>x. [])\<rparr>"

text \<open>A service that rejects every token request with an error object.\<close>

definition rejecting_world :: world where
  "rejecting_world =
     \<lparr>sent = [], server = (\<lambda>hist req. Reply (JDict [(''error'', JStr ''invalid_grant'')])),
      ticks = 0, clock = demo_clock, container_str = (\<lambda>x. [])\<rparr>"

text \<open>A client whose token has expired, and an empty store.\<close>

definition demo_client :: Client where
  "demo_client =
     \<lparr>priv_access_token = JStr [], priv_refresh_token = Some ''r'',
      priv_account_user_id = Some ''u1'', priv_expires_at = 0, priv_bed_name = None\<rparr>"

definition empty_store :: store where
  "empty_store = \<lparr>Client_sides = Map.empty, heap = Map.empty, next_addr = 0\<rparr>"

text \<open>The requests of a log that go to the token endpoint, and those that are writes.\<close>

definition refresh_calls :: "request list \<Rightarrow> request list" where
  "refresh_calls rs = filter (\<lambda>q. req_url q = AUTH_URI) rs"


text \<open>The request \<open>refresh\<close> sends for a refresh token.\<close>

definition refresh_request :: "string option \<Rightarrow> request" where
  "refresh_request rt =
     \<lparr>req_method = ''POST'', req_url = AUTH_URI,
      req_headers = [(''Content-Type'', ''application/json'')],
      req_data = refresh_payload rt, req_timeout = 60\<rparr>"

text \<open>
  A store as \<open>initialize\<close> leaves it for the account \<open>u1\<close> on the left side of \<open>d1\<close>.
\<close>

definition demo_store :: store where
  "demo_store =
     \<lparr>Client_sides = [Left \<mapsto> 0, Right \<mapsto> 1],
      heap = [0 \<mapsto> \<lparr>status = On, temperature = PyFloat 4, target = PyFloat 3,
                      priv_side = Left, priv_user_id = Some ''u1''\<rparr>,
              1 \<mapsto> \<lparr>status = Off, temperature = PyFloat 6, target = PyFloat (- 2),
                      priv_side = Right, priv_user_id = Some ''guest-d1-right''\<rparr>],
      next_addr = 2\<rparr>"

text \<open>A second client, of another account.\<close>

definition other_client :: Client where
  "other_client =
     \<lparr>priv_access_token = JStr [], priv_refresh_token = Some ''r0'',
      priv_account_user_id = Some ''u0'', priv_expires_at = 0, priv_bed_name = None\<rparr>"

section \<open>Properties\<close>

subsection \<open>Rounding\<close>

lemma round_int_m1_multiple: "round_int_m1 v mod 10 = 0"
  by (simp add: round_int_m1_def Let_def)

lemma round_int_m1_near: "\<bar>round_int_m1 v - v\<bar> \<le> 5"
  unfolding round_int_m1_def Let_def by (auto split: if_splits) presburger+

lemma round_int_m1_bound:
  assumes "\<bar>v\<bar> \<le> 2 ^ 53"
  shows "\<bar>round_int_m1 v div 10\<bar> \<le> 2 ^ 53"
proof -
  have "\<bar>round_int_m1 v - v\<bar> \<le> 5"
    by (rule round_int_m1_near)
  moreover have "round_int_m1 v = 10 * (round_int_m1 v div 10)"
    using round_int_m1_multiple [of v] by presburger
  ultimately show ?thesis
    using assms by simp
qed

lemma level_of_int:
  "\<bar>v\<bar> \<le> 2 ^ 53 \<Longrightarrow> level_of (JInt v) = Inr (PyFloat (of_int (round_int_m1 v div 10)))"
  using round_int_m1_bound [of v]
  by (simp add: level_of_def py_round_m1_def bindE_def nearest_double_def)


subsection \<open>Evaluation on the concrete service\<close>

lemmas demo_defs = demo_world_def demo_server_def token_reply_def user_reply_def device_reply_def names_reply_def demo_clock_def

lemmas eval_defs = Client_init_def Client_token_def initialize_def refresh_state_def
  get_user_def get_device_def get_device_names_def refresh_def send_request_def
  datetime_now_def datetime_add_def timedelta_seconds_def minus_100_def
  getitem_def bindE_def level_of_def py_round_m1_def round_int_m1_def py_str_def truthy_def
  BedSide_of_def BedSide_value_def json_of_def hash_key_def iterate_def names_getitem_def
  BedStatus_new_def sides_setitem_def sides_def sides_getitem_def setattr_def
  API_BASE_URI_def APP_BASE_URI_def AUTH_URI_def refresh_payload_def
  CLIENT_ID_def CLIENT_SECRET_def empty_store_def refresh_calls_def nearest_double_def
  scaled_level_def Let_def

subsection \<open>The token\<close>

lemma refresh_sent: "sent (snd (refresh rt w)) = sent w @ [refresh_request rt]"
  by (simp add: refresh_def send_request_def refresh_request_def Let_def split: reply.split)

lemma refresh_world:
  "refresh rt w = (r, w') \<Longrightarrow> w' = w\<lparr>sent := sent w @ [refresh_request rt]\<rparr>"
  by (auto simp add: refresh_def send_request_def refresh_request_def Let_def split: reply.splits)

lemma refresh_ok:
  assumes "server w (sent w) (refresh_request rt) = Reply res"
    and "getitem res ''access_token'' = Inr a"
    and "getitem res ''token_type'' = Inr tt"
    and "getitem res ''expires_in'' = Inr x"
    and "getitem res ''refresh_token'' = Inr r"
  shows "refresh rt w =
     (Inr \<lparr>access_token = a, token_type = tt, expires_in = x, refresh_token = r, user_id = JNull\<rparr>,
      w\<lparr>sent := sent w @ [refresh_request rt]\<rparr>)"
  using assms
  by (simp add: refresh_def send_request_def refresh_request_def Let_def bindE_def)

lemma token_fresh:
  "clock w (ticks w) \<le> priv_expires_at self \<Longrightarrow>
   Client_token self w = (Inr (priv_access_token self), self, w\<lparr>ticks := Suc (ticks w)\<rparr>)"
  by (simp add: Client_token_def datetime_now_def)

lemma token_expired_sent:
  "clock w (ticks w) > priv_expires_at self \<Longrightarrow>
   sent (snd (snd (Client_token self w))) = sent w @ [refresh_request (priv_refresh_token self)]"
  apply (simp add: Client_token_def datetime_now_def Let_def split: prod.splits sum.splits)
  apply (auto dest!: refresh_world)
  done

lemma token_expired_ok:
  assumes "clock w (ticks w) > priv_expires_at self"
    and "server w (sent w) (refresh_request (priv_refresh_token self)) = Reply res"
    and "getitem res ''access_token'' = Inr a"
    and "getitem res ''token_type'' = Inr tt"
    and "getitem res ''expires_in'' = Inr (JInt L)"
    and "getitem res ''refresh_token'' = Inr r"
    and "\<bar>(L - 100) div 86400\<bar> \<le> 999999999"
    and "0 \<le> clock w (Suc (ticks w)) + (L - 100) * 1000000"
    and "clock w (Suc (ticks w)) + (L - 100) * 1000000 < 3652059 * 86400000000"
  shows "Client_token self w =
     (Inr a,
      self\<lparr>priv_access_token := a,
           priv_expires_at := clock w (Suc (ticks w)) + (L - 100) * 1000000\<rparr>,
      w\<lparr>sent := sent w @ [refresh_request (priv_refresh_token self)],
        ticks := Suc (Suc (ticks w))\<rparr>)"
proof -
  let ?w1 = "w\<lparr>ticks := Suc (ticks w)\<rparr>"
  have r: "refresh (priv_refresh_token self) ?w1 =
     (Inr \<lparr>access_token = a, token_type = tt, expires_in = JInt L, refresh_token = r, user_id = JNull\<rparr>,
      ?w1\<lparr>sent := sent ?w1 @ [refresh_request (priv_refresh_token self)]\<rparr>)"
    by (rule refresh_ok) (use assms in simp_all)
  show ?thesis
    using assms(1,7,8,9)
    by (simp add: Client_token_def datetime_now_def r minus_100_def timedelta_seconds_def
        datetime_add_def bindE_def)
qed

lemma token_keeps:
  "Client_token self w = (r, self', w') \<Longrightarrow>
   priv_account_user_id self' = priv_account_user_id self \<and>
   priv_refresh_token self' = priv_refresh_token self \<and>
   priv_bed_name self' = priv_bed_name self"
  by (auto simp add: Client_token_def datetime_now_def Let_def split: prod.splits sum.splits if_splits)


subsection \<open>Refreshes of an operation\<close>

text \<open>
  The gateway calls leave the clock alone and send nothing to the token endpoint; a call
  of \<open>_token\<close> that finds the token expired sends one request there.
\<close>

lemma send_request_frame:
  "send_request url m p a w = (r, w') \<Longrightarrow>
   ticks w' = ticks w \<and> clock w' = clock w \<and> server w' = server w
   \<and> (url \<noteq> AUTH_URI \<longrightarrow> refresh_calls (sent w') = refresh_calls (sent w))"
  by (auto simp add: send_request_def refresh_calls_def Let_def
      split: json.splits reply.splits)

lemma api_not_auth [simp]: "API_BASE_URI @ x \<noteq> AUTH_URI"
  by (simp add: API_BASE_URI_def AUTH_URI_def)

lemma app_not_auth [simp]: "APP_BASE_URI @ x \<noteq> AUTH_URI"
  by (simp add: APP_BASE_URI_def AUTH_URI_def)

lemma get_user_frame:
  "get_user u t w = (r, w') \<Longrightarrow>
   ticks w' = ticks w \<and> clock w' = clock w
   \<and> refresh_calls (sent w') = refresh_calls (sent w)"
  by (auto simp add: get_user_def split: prod.splits sum.splits dest!: send_request_frame)

lemma get_device_frame:
  "get_device cp d t w = (r, w') \<Longrightarrow>
   ticks w' = ticks w \<and> clock w' = clock w
   \<and> refresh_calls (sent w') = refresh_calls (sent w)"
  by (auto simp add: get_device_def split: prod.splits sum.splits dest!: send_request_frame)

lemma get_device_names_frame:
  "get_device_names u t w = (r, w') \<Longrightarrow>
   ticks w' = ticks w \<and> clock w' = clock w
   \<and> refresh_calls (sent w') = refresh_calls (sent w)"
  by (auto simp add: get_device_names_def split: prod.splits sum.splits dest!: send_request_frame)

lemma set_temperature_frame:
  "set_temperature cp u T t p w = (r, w') \<Longrightarrow>
   ticks w' = ticks w \<and> clock w' = clock w
   \<and> refresh_calls (sent w') = refresh_calls (sent w)"
  by (auto simp add: set_temperature_def Let_def split: prod.splits sum.splits
      dest!: send_request_frame)

lemma turn_off_frame:
  "turn_off u t w = (r, w') \<Longrightarrow>
   ticks w' = ticks w \<and> clock w' = clock w
   \<and> refresh_calls (sent w') = refresh_calls (sent w)"
  by (auto simp add: turn_off_def split: prod.splits sum.splits dest!: send_request_frame)

lemma turn_on_frame:
  "turn_on u t w = (r, w') \<Longrightarrow>
   ticks w' = ticks w \<and> clock w' = clock w
   \<and> refresh_calls (sent w') = refresh_calls (sent w)"
  by (auto simp add: turn_on_def split: prod.splits sum.splits dest!: send_request_frame)

lemma token_fresh_frame:
  "clock w (ticks w) \<le> priv_expires_at self \<Longrightarrow> Client_token self w = (r, self', w') \<Longrightarrow>
   self' = self \<and> ticks w' = Suc (ticks w) \<and> clock w' = clock w
   \<and> refresh_calls (sent w') = refresh_calls (sent w)"
  by (auto simp add: token_fresh)

lemma token_expired_frame:
  "priv_expires_at self < clock w (ticks w) \<Longrightarrow> Client_token self w = (r, self', w') \<Longrightarrow>
   clock w' = clock w
   \<and> refresh_calls (sent w') =
       refresh_calls (sent w) @ [refresh_request (priv_refresh_token self)]
   \<and> ((\<exists>t. r = Inr t) \<longrightarrow> ticks w' = Suc (Suc (ticks w)))"
  by (auto simp add: Client_token_def datetime_now_def Let_def refresh_calls_def
      refresh_request_def split: prod.splits sum.splits if_splits dest!: refresh_world)


lemmas frames = get_user_frame get_device_frame get_device_names_frame
  set_temperature_frame turn_off_frame turn_on_frame

lemma initialize_quiet:
  assumes "clock w (ticks w) \<le> priv_expires_at self"
    and "clock w (Suc (ticks w)) \<le> priv_expires_at self"
    and "clock w (Suc (Suc (ticks w))) \<le> priv_expires_at self"
    and "initialize cp self st w = (res, self', st', w')"
  shows "refresh_calls (sent w') = refresh_calls (sent w)"
  using assms
  by (auto simp add: initialize_def token_fresh Let_def BedStatus_new_def
      split: prod.splits sum.splits if_splits copy.splits dest!: frames)


lemma refresh_state_quiet:
  assumes "clock w (ticks w) \<le> priv_expires_at self"
    and "clock w (Suc (ticks w)) \<le> priv_expires_at self"
    and "refresh_state cp self st w = (res, self', st', w')"
  shows "refresh_calls (sent w') = refresh_calls (sent w)"
  using assms
  by (auto simp add: refresh_state_def token_fresh Let_def
      split: prod.splits sum.splits if_splits dest!: frames)

lemma set_temp_quiet:
  assumes "clock w (ticks w) \<le> priv_expires_at self"
    and "set_temp cp self st sd T w = (res, self', w')"
  shows "refresh_calls (sent w') = refresh_calls (sent w)"
  using assms
  by (auto simp add: set_temp_def token_fresh Let_def
      split: prod.splits sum.splits if_splits dest!: frames)

lemma set_power_quiet:
  assumes "clock w (ticks w) \<le> priv_expires_at self"
    and "set_power self st sd p w = (res, self', w')"
  shows "refresh_calls (sent w') = refresh_calls (sent w)"
  using assms
  by (auto simp add: set_power_def token_fresh Let_def
      split: prod.splits sum.splits if_splits dest!: frames)

lemma run_op_quiet:
  assumes "\<forall>i<token_calls op. clock w (ticks w + i) \<le> priv_expires_at self"
    and "run_op cp op self st w = (res, self', st', w')"
  shows "refresh_calls (sent w') = refresh_calls (sent w)"
proof (cases op)
  case Initialize
  with assms(1) have "clock w (ticks w) \<le> priv_expires_at self"
    "clock w (Suc (ticks w)) \<le> priv_expires_at self"
    "clock w (Suc (Suc (ticks w))) \<le> priv_expires_at self"
    using assms(1) [rule_format, of 0] assms(1) [rule_format, of 1] assms(1) [rule_format, of 2]
    by (simp_all add: token_calls_def)
  then show ?thesis
    using assms(2) Initialize by (auto simp add: run_op_def dest: initialize_quiet)
next
  case Refresh_state
  with assms(1) have "clock w (ticks w) \<le> priv_expires_at self"
    "clock w (Suc (ticks w)) \<le> priv_expires_at self"
    using assms(1) [rule_format, of 0] assms(1) [rule_format, of 1]
    by (simp_all add: token_calls_def)
  then show ?thesis
    using assms(2) Refresh_state by (auto simp add: run_op_def dest: refresh_state_quiet)
next
  case (Set_temp sd T)
  with assms(1) have "clock w (ticks w) \<le> priv_expires_at self"
    using assms(1) [rule_format, of 0] by (simp add: token_calls_def)
  then show ?thesis
    using assms(2) Set_temp
    by (auto simp add: run_op_def split: prod.splits dest: set_temp_quiet)
next
  case (Set_power sd p)
  with assms(1) have "clock w (ticks w) \<le> priv_expires_at self"
    using assms(1) [rule_format, of 0] by (simp add: token_calls_def)
  then show ?thesis
    using assms(2) Set_power
    by (auto simp add: run_op_def split: prod.splits dest: set_power_quiet)
qed

lemma run_op_refresh_failed:
  assumes "priv_expires_at self < clock w (ticks w)"
    and "side_known op self st"
    and "Client_token self w = (Inl e, self1, w1)"
    and "run_op cp op self st w = (res, self', st', w')"
  shows "res = Inl e \<and> refresh_calls (sent w') =
      refresh_calls (sent w) @ [refresh_request (priv_refresh_token self)]"
  using assms token_expired_frame [OF assms(1,3)]
  by (cases op)
     (auto simp add: run_op_def initialize_def refresh_state_def set_temp_def set_power_def
        side_known_def split: prod.splits sum.splits)

lemma initialize_once:
  assumes "priv_expires_at self < clock w (ticks w)"
    and "Client_token self w = (Inr t, self1, w1)"
    and "clock w (Suc (Suc (ticks w))) \<le> priv_expires_at self1"
    and "clock w (Suc (Suc (Suc (ticks w)))) \<le> priv_expires_at self1"
    and "initialize cp self st w = (res, self', st', w')"
  shows "refresh_calls (sent w') =
      refresh_calls (sent w) @ [refresh_request (priv_refresh_token self)]
    \<and> priv_access_token self' = priv_access_token self1
    \<and> priv_expires_at self' = priv_expires_at self1"
  using assms(2-) token_expired_frame [OF assms(1,2)]
  by (auto simp add: initialize_def token_fresh Let_def BedStatus_new_def
      split: prod.splits sum.splits if_splits copy.splits dest!: frames)

lemma refresh_state_once:
  assumes "priv_expires_at self < clock w (ticks w)"
    and "Client_token self w = (Inr t, self1, w1)"
    and "clock w (Suc (Suc (ticks w))) \<le> priv_expires_at self1"
    and "refresh_state cp self st w = (res, self', st', w')"
  shows "refresh_calls (sent w') =
      refresh_calls (sent w) @ [refresh_request (priv_refresh_token self)]
    \<and> priv_access_token self' = priv_access_token self1
    \<and> priv_expires_at self' = priv_expires_at self1"
  using assms(2-) token_expired_frame [OF assms(1,2)]
  by (auto simp add: refresh_state_def token_fresh Let_def
      split: prod.splits sum.splits if_splits dest!: frames)

lemma set_temp_once:
  assumes "priv_expires_at self < clock w (ticks w)"
    and "Client_token self w = (Inr t, self1, w1)"
    and "sides_getitem self st sd = Inr x"
    and "set_temp cp self st sd T w = (res, self', w')"
  shows "refresh_calls (sent w') =
      refresh_calls (sent w) @ [refresh_request (priv_refresh_token self)]
    \<and> priv_access_token self' = priv_access_token self1
    \<and> priv_expires_at self' = priv_expires_at self1"
  using assms(2-) token_expired_frame [OF assms(1,2)]
  by (auto simp add: set_temp_def Let_def
      split: prod.splits sum.splits if_splits dest!: frames)

lemma set_power_once:
  assumes "priv_expires_at self < clock w (ticks w)"
    and "Client_token self w = (Inr t, self1, w1)"
    and "sides_getitem self st sd = Inr x"
    and "set_power self st sd p w = (res, self', w')"
  shows "refresh_calls (sent w') =
      refresh_calls (sent w) @ [refresh_request (priv_refresh_token self)]
    \<and> priv_access_token self' = priv_access_token self1
    \<and> priv_expires_at self' = priv_expires_at self1"
  using assms(2-) token_expired_frame [OF assms(1,2)]
  by (auto simp add: set_power_def Let_def
      split: prod.splits sum.splits if_splits dest!: frames)

lemma run_op_once:
  assumes "priv_expires_at self < clock w (ticks w)"
    and "side_known op self st"
    and "Client_token self w = (Inr t, self1, w1)"
    and "\<forall>i<token_calls op - 1. clock w (ticks w + 2 + i) \<le> priv_expires_at self1"
    and "run_op cp op self st w = (res, self', st', w')"
  shows "refresh_calls (sent w') =
      refresh_calls (sent w) @ [refresh_request (priv_refresh_token self)]
    \<and> priv_access_token self' = priv_access_token self1
    \<and> priv_expires_at self' = priv_expires_at self1"
proof (cases op)
  case Initialize
  have "clock w (Suc (Suc (ticks w))) \<le> priv_expires_at self1"
    "clock w (Suc (Suc (Suc (ticks w)))) \<le> priv_expires_at self1"
    using assms(4) [rule_format, of 0] assms(4) [rule_format, of 1] Initialize
    by (simp_all add: token_calls_def)
  then show ?thesis
    using assms(1,3,5) Initialize by (auto simp add: run_op_def dest: initialize_once)
next
  case Refresh_state
  have "clock w (Suc (Suc (ticks w))) \<le> priv_expires_at self1"
    using assms(4) [rule_format, of 0] Refresh_state by (simp add: token_calls_def)
  then show ?thesis
    using assms(1,3,5) Refresh_state by (auto simp add: run_op_def dest: refresh_state_once)
next
  case (Set_temp sd T)
  then obtain x where "sides_getitem self st sd = Inr x"
    using assms(2) by (auto simp add: side_known_def split: sum.splits)
  then show ?thesis
    using assms(1,3,5) Set_temp
    by (auto simp add: run_op_def split: prod.splits dest: set_temp_once)
next
  case (Set_power sd p)
  then obtain x where "sides_getitem self st sd = Inr x"
    using assms(2) by (auto simp add: side_known_def split: sum.splits)
  then show ?thesis
    using assms(1,3,5) Set_power
    by (auto simp add: run_op_def split: prod.splits dest: set_power_once)
qed

lemma demo_token:
  "Client_token demo_client (demo_world sd 3600) =
     (Inr (JStr ''tok''),
      demo_client\<lparr>priv_access_token := JStr ''tok'', priv_expires_at := 63900003501000000\<rparr>,
      (demo_world sd 3600)\<lparr>sent := [refresh_request (Some ''r'')], ticks := 2\<rparr>)"
  by (simp add: eval_defs demo_defs demo_client_def refresh_request_def)

lemma rejected_token:
  "Client_token demo_client rejecting_world =
     (Inl (KeyError (JStr ''access_token'')), demo_client,
      rejecting_world\<lparr>sent := [refresh_request (Some ''r'')], ticks := 1\<rparr>)"
  by (simp add: eval_defs demo_client_def rejecting_world_def demo_clock_def refresh_request_def)

text \<open>
  Claim C4, as the code has it. One call of \<open>_token\<close> sends nothing when the clock
  reading is not after \<open>_expires_at\<close>, and sends exactly one request, the refresh, when
  it is; when the reply to the refresh has the four fields, with an int lifetime \<open>L\<close>,
  the new access token is stored and \<open>_expires_at\<close> becomes the clock reading taken
  after the refresh plus \<open>L - 100\<close> seconds. For each of the four operations, run from
  any client, store and environment: when none of the clock readings of its \<open>_token\<close>
  calls is after \<open>_expires_at\<close>, it sends no refresh; when the first reading is after
  \<open>_expires_at\<close> and the side it names is in the side map, it sends exactly one
  refresh, either because that refresh raises and ends the operation, or because the
  refresh returns, the expiry it sets is not before the later clock readings of the
  operation (two for \<open>initialize\<close>, one for \<open>refresh_state\<close>, none for \<open>set_temp\<close>
  and \<open>set_power\<close>), and the client keeps the token and the expiry of that refresh.
\<close>

theorem refresh_policy:
  "(clock w (ticks w) \<le> priv_expires_at self \<longrightarrow>
      Client_token self w = (Inr (priv_access_token self), self, w\<lparr>ticks := Suc (ticks w)\<rparr>))
   \<and> (priv_expires_at self < clock w (ticks w) \<longrightarrow>
      sent (snd (snd (Client_token self w))) =
        sent w @ [refresh_request (priv_refresh_token self)])
   \<and> (priv_expires_at self < clock w (ticks w)
      \<and> server w (sent w) (refresh_request (priv_refresh_token self)) = Reply res
      \<and> getitem res ''access_token'' = Inr a
      \<and> getitem res ''token_type'' = Inr tt
      \<and> getitem res ''expires_in'' = Inr (JInt L)
      \<and> getitem res ''refresh_token'' = Inr r
      \<and> \<bar>(L - 100) div 86400\<bar> \<le> 999999999
      \<and> 0 \<le> clock w (Suc (ticks w)) + (L - 100) * 1000000
      \<and> clock w (Suc (ticks w)) + (L - 100) * 1000000 < 3652059 * 86400000000 \<longrightarrow>
      Client_token self w =
        (Inr a,
         self\<lparr>priv_access_token := a,
              priv_expires_at := clock w (Suc (ticks w)) + (L - 100) * 1000000\<rparr>,
         w\<lparr>sent := sent w @ [refresh_request (priv_refresh_token self)],
           ticks := Suc (Suc (ticks w))\<rparr>))
   \<and> (run_op cp op self st w = (out, self', st', w')
      \<and> (\<forall>i<token_calls op. clock w (ticks w + i) \<le> priv_expires_at self) \<longrightarrow>
      refresh_calls (sent w') = refresh_calls (sent w))
   \<and> (run_op cp op self st w = (out, self', st', w')
      \<and> priv_expires_at self < clock w (ticks w)
      \<and> side_known op self st
      \<and> Client_token self w = (Inl e, self1, w1) \<longrightarrow>
      out = Inl e
      \<and> refresh_calls (sent w') =
          refresh_calls (sent w) @ [refresh_request (priv_refresh_token self)])
   \<and> (run_op cp op self st w = (out, self', st', w')
      \<and> priv_expires_at self < clock w (ticks w)
      \<and> side_known op self st
      \<and> Client_token self w = (Inr t, self2, w2)
      \<and> (\<forall>i<token_calls op - 1. clock w (ticks w + 2 + i) \<le> priv_expires_at self2) \<longrightarrow>
      refresh_calls (sent w') =
          refresh_calls (sent w) @ [refresh_request (priv_refresh_token self)]
      \<and> priv_access_token self' = priv_access_token self2
      \<and> priv_expires_at self' = priv_expires_at self2)"
proof (intro conjI impI)
  assume "clock w (ticks w) \<le> priv_expires_at self"
  then show "Client_token self w =
      (Inr (priv_access_token self), self, w\<lparr>ticks := Suc (ticks w)\<rparr>)"
    by (rule token_fresh)
next
  assume "priv_expires_at self < clock w (ticks w)"
  then show "sent (snd (snd (Client_token self w))) =
      sent w @ [refresh_request (priv_refresh_token self)]"
    by (rule token_expired_sent)
next
  assume h: "priv_expires_at self < clock w (ticks w)
      \<and> server w (sent w) (refresh_request (priv_refresh_token self)) = Reply res
      \<and> getitem res ''access_token'' = Inr a
      \<and> getitem res ''token_type'' = Inr tt
      \<and> getitem res ''expires_in'' = Inr (JInt L)
      \<and> getitem res ''refresh_token'' = Inr r
      \<and> \<bar>(L - 100) div 86400\<bar> \<le> 999999999
      \<and> 0 \<le> clock w (Suc (ticks w)) + (L - 100) * 1000000
      \<and> clock w (Suc (ticks w)) + (L - 100) * 1000000 < 3652059 * 86400000000"
  show "Client_token self w =
        (Inr a,
         self\<lparr>priv_access_token := a,
              priv_expires_at := clock w (Suc (ticks w)) + (L - 100) * 1000000\<rparr>,
         w\<lparr>sent := sent w @ [refresh_request (priv_refresh_token self)],
           ticks := Suc (Suc (ticks w))\<rparr>)"
    by (rule token_expired_ok [where res = res and tt = tt and r = r]) (use h in simp_all)
next
  assume "run_op cp op self st w = (out, self', st', w')
      \<and> (\<forall>i<token_calls op. clock w (ticks w + i) \<le> priv_expires_at self)"
  then show "refresh_calls (sent w') = refresh_calls (sent w)"
    using run_op_quiet by blast
next
  assume h: "run_op cp op self st w = (out, self', st', w')
      \<and> priv_expires_at self < clock w (ticks w)
      \<and> side_known op self st
      \<and> Client_token self w = (Inl e, self1, w1)"
  then have "out = Inl e \<and> refresh_calls (sent w') =
      refresh_calls (sent w) @ [refresh_request (priv_refresh_token self)]"
    using run_op_refresh_failed by blast
  then show "out = Inl e"
    and "refresh_calls (sent w') =
      refresh_calls (sent w) @ [refresh_request (priv_refresh_token self)]"
    by simp_all
next
  assume h: "run_op cp op self st w = (out, self', st', w')
      \<and> priv_expires_at self < clock w (ticks w)
      \<and> side_known op self st
      \<and> Client_token self w = (Inr t, self2, w2)
      \<and> (\<forall>i<token_calls op - 1. clock w (ticks w + 2 + i) \<le> priv_expires_at self2)"
  then have "refresh_calls (sent w') =
      refresh_calls (sent w) @ [refresh_request (priv_refresh_token self)]
    \<and> priv_access_token self' = priv_access_token self2
    \<and> priv_expires_at self' = priv_expires_at self2"
    using run_op_once by blast
  then show "refresh_calls (sent w') =
      refresh_calls (sent w) @ [refresh_request (priv_refresh_token self)]"
    and "priv_access_token self' = priv_access_token self2"
    and "priv_expires_at self' = priv_expires_at self2"
    by simp_all
qed

theorem refresh_policy_witness:
  "Client_token (demo_client\<lparr>priv_expires_at := 63900000000000000\<rparr>) (demo_world ''left'' 3600)
       = (Inr (JStr []), demo_client\<lparr>priv_expires_at := 63900000000000000\<rparr>,
          (demo_world ''left'' 3600)\<lparr>ticks := 1\<rparr>)
   \<and> sent (snd (snd (Client_token demo_client (demo_world ''left'' 3600))))
       = [refresh_request (Some ''r'')]
   \<and> Client_token demo_client (demo_world ''left'' 3600)
       = (Inr (JStr ''tok''),
          demo_client\<lparr>priv_access_token := JStr ''tok'', priv_expires_at := 63900003501000000\<rparr>,
          (demo_world ''left'' 3600)\<lparr>sent := [refresh_request (Some ''r'')], ticks := 2\<rparr>)
   \<and> refresh_calls (sent (snd (snd (snd
         (run_op Eightslp Refresh_state (demo_client\<lparr>priv_expires_at := 63900000100000000\<rparr>)
            demo_store (demo_world ''left'' 3600)))))) = []
   \<and> fst (run_op Eightslp (Set_temp Right (TInt 3)) demo_client demo_store rejecting_world)
       = Inl (KeyError (JStr ''access_token''))
   \<and> refresh_calls (sent (snd (snd (snd
         (run_op Eightslp (Set_temp Right (TInt 3)) demo_client demo_store rejecting_world)))))
       = [refresh_request (Some ''r'')]
   \<and> refresh_calls (sent (snd (snd (snd
         (run_op Eightslp Initialize demo_client empty_store (demo_world ''left'' 3600))))))
       = [refresh_request (Some ''r'')]
   \<and> priv_access_token (fst (snd
         (run_op Eightslp Initialize demo_client empty_store (demo_world ''left'' 3600))))
       = JStr ''tok''
   \<and> priv_expires_at (fst (snd
         (run_op Eightslp Initialize demo_client empty_store (demo_world ''left'' 3600))))
       = 63900003501000000"
proof -
  let ?W = "demo_world ''left'' 3600"
  let ?G = "demo_client\<lparr>priv_expires_at := 63900000000000000\<rparr>"
  let ?F = "demo_client\<lparr>priv_expires_at := 63900000100000000\<rparr>"
  let ?C1 = "demo_client\<lparr>priv_access_token := JStr ''tok'',
                          priv_expires_at := 63900003501000000\<rparr>"
  let ?R4 = "run_op Eightslp Refresh_state ?F demo_store ?W"
  let ?R5 = "run_op Eightslp (Set_temp Right (TInt 3)) demo_client demo_store rejecting_world"
  let ?R6 = "run_op Eightslp Initialize demo_client empty_store ?W"
  have p1: "Client_token ?G ?W = (Inr (JStr []), ?G, ?W\<lparr>ticks := 1\<rparr>)"
    using refresh_policy [where w = ?W and self = ?G, THEN conjunct1]
    by (simp add: demo_defs demo_client_def)
  have ex: "priv_expires_at demo_client < clock ?W (ticks ?W)"
    by (simp add: demo_defs demo_client_def)
  have p2: "sent (snd (snd (Client_token demo_client ?W))) = [refresh_request (Some ''r'')]"
    using refresh_policy [where w = ?W and self = demo_client, THEN conjunct2, THEN conjunct1] ex
    by (simp add: demo_defs demo_client_def)
  have p3: "Client_token demo_client ?W =
      (Inr (JStr ''tok''), ?C1, ?W\<lparr>sent := [refresh_request (Some ''r'')], ticks := 2\<rparr>)"
    using refresh_policy [where w = ?W and self = demo_client and res = "token_reply 3600"
        and a = "JStr ''tok''" and tt = "JStr ''bearer''" and L = 3600 and r = "JStr ''r2''",
        THEN conjunct2, THEN conjunct2, THEN conjunct1]
    by (simp add: demo_defs demo_client_def refresh_request_def getitem_def AUTH_URI_def)
  have r4: "?R4 = (fst ?R4, fst (snd ?R4), fst (snd (snd ?R4)), snd (snd (snd ?R4)))"
    by simp
  have f4: "\<forall>i<token_calls Refresh_state. clock ?W (ticks ?W + i) \<le> priv_expires_at ?F"
    by (auto simp add: token_calls_def demo_defs demo_client_def)
  have p4: "refresh_calls (sent (snd (snd (snd ?R4)))) = refresh_calls (sent ?W)"
    by (rule refresh_policy [THEN conjunct2, THEN conjunct2, THEN conjunct2, THEN conjunct1,
          THEN mp, OF conjI [OF r4 f4]])
  have r5: "?R5 = (fst ?R5, fst (snd ?R5), fst (snd (snd ?R5)), snd (snd (snd ?R5)))"
    by simp
  have ex5: "priv_expires_at demo_client < clock rejecting_world (ticks rejecting_world)"
    by (simp add: rejecting_world_def demo_clock_def demo_client_def)
  have k5: "side_known (Set_temp Right (TInt 3)) demo_client demo_store"
    by (simp add: side_known_def sides_getitem_def sides_def demo_store_def)
  have p5: "fst ?R5 = Inl (KeyError (JStr ''access_token''))
      \<and> refresh_calls (sent (snd (snd (snd ?R5)))) =
          refresh_calls (sent rejecting_world) @ [refresh_request (priv_refresh_token demo_client)]"
    by (rule refresh_policy [THEN conjunct2, THEN conjunct2, THEN conjunct2, THEN conjunct2,
          THEN conjunct1, THEN mp, OF conjI [OF r5 conjI [OF ex5 conjI [OF k5 rejected_token]]]])
  have r6: "?R6 = (fst ?R6, fst (snd ?R6), fst (snd (snd ?R6)), snd (snd (snd ?R6)))"
    by simp
  have k6: "side_known Initialize demo_client empty_store"
    by (simp add: side_known_def)
  have f6: "\<forall>i<token_calls Initialize - 1. clock ?W (ticks ?W + 2 + i) \<le> priv_expires_at ?C1"
    by (auto simp add: token_calls_def demo_defs demo_client_def)
  have p6: "refresh_calls (sent (snd (snd (snd ?R6)))) =
          refresh_calls (sent ?W) @ [refresh_request (priv_refresh_token demo_client)]
      \<and> priv_access_token (fst (snd ?R6)) = priv_access_token ?C1
      \<and> priv_expires_at (fst (snd ?R6)) = priv_expires_at ?C1"
    by (rule refresh_policy [THEN conjunct2, THEN conjunct2, THEN conjunct2, THEN conjunct2,
          THEN conjunct2, THEN mp,
          OF conjI [OF r6 conjI [OF ex conjI [OF k6 conjI [OF demo_token f6]]]]])
  have e0: "refresh_calls (sent ?W) = []" "refresh_calls (sent rejecting_world) = []"
    "priv_refresh_token demo_client = Some ''r''"
    by (simp_all add: refresh_calls_def demo_world_def rejecting_world_def demo_client_def)
  from p1 p2 p3 p4 p5 p6 show ?thesis
    by (simp only: e0 append_Nil Client.simps) simp
qed

text \<open>
  Claim C4 as stated fails in two ways. \<open>initialize\<close> calls \<open>_token\<close> three times;
  when the service grants a lifetime of 50 seconds the expiry just set lies in the past,
  and the first operation after construction sends three refresh requests. And an
  operation on a side that is not in the side map (here \<open>Both\<close>) raises KeyError
  before it calls \<open>_token\<close>: with an expired token it sends no refresh at all.
\<close>

theorem initialize_refreshes_three_times:
  "(case Client_init Eightslp (Some ''r'') (Some ''u1'') (demo_world ''left'' 50) of
      (Inl e, w) \<Rightarrow> False
    | (Inr c, w) \<Rightarrow>
        (case initialize Eightslp c empty_store w of
           (r, c', st', w') \<Rightarrow> r = Inr () \<and> length (refresh_calls (sent w')) = 3))
   \<and> priv_expires_at demo_client < clock (demo_world ''left'' 3600) (ticks (demo_world ''left'' 3600))
   \<and> (case set_power demo_client demo_store Both On (demo_world ''left'' 3600) of
        (r, c', w') \<Rightarrow> r = Inl (KeyError_side Both) \<and> refresh_calls (sent w') = [])"
  by (simp add: eval_defs demo_defs demo_client_def demo_store_def set_power_def)

subsection \<open>The gateway\<close>

text \<open>
  Claim C7 at the user \<open>u1\<close>. \<open>turn_on\<close> and \<open>set_temperature\<close> send their PUT to
  the app API, \<open>.../users/u1/temperature\<close> under \<open>APP_BASE_URI\<close>; \<open>turn_off\<close>
  builds its URL from \<open>API_BASE_URI\<close> and sends the PUT to the client API.
\<close>

theorem turn_off_url:
  "sent (snd (turn_off (JStr ''u1'') (JStr ''tok'') w)) = sent w @
     [\<lparr>req_method = ''PUT'',
       req_url = ''https://client-api.8slp.net/v1/users/u1/temperature'',
       req_headers = [(''Content-Type'', ''application/json''), (''Authorization'', ''Bearer tok'')],
       req_data = JDict [(''currentState'', JDict [(''type'', JStr ''off'')])],
       req_timeout = 60\<rparr>]
   \<and> sent (snd (turn_on (JStr ''u1'') (JStr ''tok'') w)) = sent w @
     [\<lparr>req_method = ''PUT'',
       req_url = ''https://app-api.8slp.net/v1/users/u1/temperature'',
       req_headers = [(''Content-Type'', ''application/json''), (''Authorization'', ''Bearer tok'')],
       req_data = JDict [(''currentState'', JDict [(''type'', JStr ''smart'')])],
       req_timeout = 60\<rparr>]
   \<and> sent (snd (set_temperature cp (JStr ''u1'') (TInt 3) (JStr ''tok'') False w)) = sent w @
     [\<lparr>req_method = ''PUT'',
       req_url = ''https://app-api.8slp.net/v1/users/u1/temperature'',
       req_headers = [(''Content-Type'', ''application/json''), (''Authorization'', ''Bearer tok'')],
       req_data = JDict [(''currentLevel'', JInt 30)],
       req_timeout = 60\<rparr>]"
  by (cases cp)
     (simp_all add: turn_off_def turn_on_def set_temperature_def scaled_level_def
        send_request_def py_str_def API_BASE_URI_def APP_BASE_URI_def Let_def split: reply.split)

text \<open>
  Claim C1, for every reply that has the expected fields with int levels of magnitude at
  most \<open>2 ^ 53\<close> (where the division by ten is exact). Both copies
  return the left side as the claim says, and the right target level. The second copy
  returns the right current level and the right duration as the claim says; in the first
  copy \<open>right_current\<close> is the reported duration and \<open>right_duration\<close> is the
  rounded and scaled level.
\<close>

theorem get_device_fields:
  assumes "server w (sent w)
             \<lparr>req_method = ''GET'', req_url = API_BASE_URI @ ''/devices/'' @ py_str w device_id,
              req_headers = [(''Content-Type'', ''application/json''),
                             (''Authorization'', ''Bearer '' @ tok)],
              req_data = JNull, req_timeout = 60\<rparr> = Reply res"
    and "getitem res ''result'' = Inr dev"
    and "getitem dev ''leftNowHeating'' = Inr lh"
    and "getitem dev ''rightNowHeating'' = Inr rh"
    and "getitem dev ''leftTargetHeatingLevel'' = Inr (JInt lt)"
    and "getitem dev ''leftHeatingLevel'' = Inr (JInt lc)"
    and "getitem dev ''leftHeatingDuration'' = Inr ld"
    and "getitem dev ''rightTargetHeatingLevel'' = Inr (JInt rt)"
    and "getitem dev ''rightHeatingLevel'' = Inr (JInt rc)"
    and "getitem dev ''rightHeatingDuration'' = Inr rd"
    and "\<bar>lt\<bar> \<le> 2 ^ 53" and "\<bar>lc\<bar> \<le> 2 ^ 53" and "\<bar>rt\<bar> \<le> 2 ^ 53" and "\<bar>rc\<bar> \<le> 2 ^ 53"
  shows "\<exists>d w'. get_device cp device_id (JStr tok) w = (Inr d, w')
      \<and> left_target d = PyFloat (of_int (round_int_m1 lt div 10))
      \<and> left_current d = PyFloat (of_int (round_int_m1 lc div 10))
      \<and> left_duration d = PyJson ld
      \<and> right_target d = PyFloat (of_int (round_int_m1 rt div 10))
      \<and> right_current d =
          (case cp of Slp8 \<Rightarrow> PyJson rd | Eightslp \<Rightarrow> PyFloat (of_int (round_int_m1 rc div 10)))
      \<and> right_duration d =
          (case cp of Slp8 \<Rightarrow> PyFloat (of_int (round_int_m1 rc div 10)) | Eightslp \<Rightarrow> PyJson rd)"
  using assms
  by (cases cp)
     (simp_all add: get_device_def send_request_def Let_def bindE_def level_of_int)

theorem get_device_fields_witness:
  "(\<exists>d w'. get_device Slp8 (JStr ''d1'') (JStr ''tok'') (demo_world ''left'' 3600) = (Inr d, w')
      \<and> left_target d = PyFloat 3
      \<and> left_current d = PyFloat 4
      \<and> left_duration d = PyJson (JInt 0)
      \<and> right_target d = PyFloat (- 2)
      \<and> right_current d = PyJson (JInt 7)
      \<and> right_duration d = PyFloat 6)"
  using get_device_fields [of "demo_world ''left'' 3600" "JStr ''d1''" "''tok''" device_reply
      "JDict [(''leftNowHeating'', JBool True), (''rightNowHeating'', JBool False),
               (''leftTargetHeatingLevel'', JInt 30), (''leftHeatingLevel'', JInt 42),
               (''leftHeatingDuration'', JInt 0),
               (''rightTargetHeatingLevel'', JInt (- 20)), (''rightHeatingLevel'', JInt 55),
               (''rightHeatingDuration'', JInt 7)]"
      "JBool True" "JBool False" 30 42 "JInt 0" "- 20" 55 "JInt 7" Slp8]
  by (simp add: demo_defs eval_defs)

lemma login_not_InvalidAuth:
  "fst (login u p w) \<noteq> Inl InvalidAuth"
  by (auto simp add: login_def send_request_def getitem_def bindE_def Let_def
      split: reply.splits json.splits option.splits sum.splits)

lemma refresh_not_InvalidAuth:
  "fst (refresh rt w) \<noteq> Inl InvalidAuth"
  by (auto simp add: refresh_def send_request_def getitem_def bindE_def Let_def
      split: reply.splits json.splits option.splits sum.splits)

text \<open>
  Claim C10, as the code has it. \<open>login\<close> and \<open>refresh\<close> test nothing about the
  reply: when the service answers a token request with a JSON object that has no field
  \<open>access_token\<close>, both raise the KeyError of that field, and neither ever raises
  \<open>InvalidAuth\<close>.
\<close>

theorem login_refresh_rejected:
  "((\<forall>req. req_url req = AUTH_URI \<longrightarrow> server w (sent w) req = Reply (JDict kvs))
      \<and> map_of kvs ''access_token'' = None \<longrightarrow>
      fst (login u p w) = Inl (KeyError (JStr ''access_token''))
      \<and> fst (refresh rt w) = Inl (KeyError (JStr ''access_token'')))
   \<and> fst (login u p w) \<noteq> Inl InvalidAuth
   \<and> fst (refresh rt w) \<noteq> Inl InvalidAuth"
  by (simp add: login_not_InvalidAuth refresh_not_InvalidAuth)
     (simp add: login_def refresh_def send_request_def getitem_def bindE_def Let_def)

theorem login_refresh_rejected_witness:
  "(\<forall>req. server rejecting_world (sent rejecting_world) req =
          Reply (JDict [(''error'', JStr ''invalid_grant'')]))
   \<and> map_of [(''error'', JStr ''invalid_grant'')] ''access_token'' = None
   \<and> fst (login ''user'' ''wrong'' rejecting_world) = Inl (KeyError (JStr ''access_token''))
   \<and> fst (refresh (Some ''expired'') rejecting_world) = Inl (KeyError (JStr ''access_token''))"
  using login_refresh_rejected [of rejecting_world "[(''error'', JStr ''invalid_grant'')]"
      "''user''" "''wrong''" "Some ''expired''"]
  by (simp add: rejecting_world_def)

text \<open>
  Claim C10 as stated fails on a service that rejects the credentials and the refresh
  token with an error object: the exception is a KeyError.
\<close>

theorem login_rejected_raises_KeyError:
  "fst (login ''user'' ''wrong'' rejecting_world) = Inl (KeyError (JStr ''access_token''))
   \<and> fst (login ''user'' ''wrong'' rejecting_world) \<noteq> Inl InvalidAuth
   \<and> fst (refresh (Some ''expired'') rejecting_world) = Inl (KeyError (JStr ''access_token''))
   \<and> fst (refresh (Some ''expired'') rejecting_world) \<noteq> Inl InvalidAuth"
  by (simp add: rejecting_world_def login_def refresh_def send_request_def getitem_def bindE_def)

subsection \<open>The session manager\<close>



lemma initialize_success:
  assumes "initialize cp self st w = (Inr (), self', st', w')"
  shows "Client_sides st' = (Client_sides st)(Left \<mapsto> next_addr st, Right \<mapsto> Suc (next_addr st))
      \<and> (\<exists>bl br. heap st' (next_addr st) = Some bl \<and> heap st' (Suc (next_addr st)) = Some br
          \<and> priv_side bl = Left \<and> priv_side br = Right
          \<and> (priv_user_id bl = priv_account_user_id self \<and> (\<exists>g. priv_user_id br = Some g)
              \<or> priv_user_id br = priv_account_user_id self \<and> (\<exists>g. priv_user_id bl = Some g)))"
  using assms
  by (auto simp add: initialize_def Let_def BedStatus_new_def sides_setitem_def
      split: prod.splits sum.splits if_splits copy.splits dest!: token_keeps)

text \<open>
  What \<open>initialize\<close> does when its gateway calls return: both entries are created
  and bound, except in the first copy for a user on the right side.
\<close>

lemma initialize_steps:
  assumes "Client_token self w = (Inr t1, self1, w1)"
    and "get_user (json_of (priv_account_user_id self1)) t1 w1 = (Inr user, w2)"
    and "Client_token self1 w2 = (Inr t2, self2, w3)"
    and "get_device cp (current_device user) t2 w3 = (Inr device, w4)"
    and "Client_token self2 w4 = (Inr t3, self3, w5)"
    and "get_device_names (json_of (priv_account_user_id self3)) t3 w5 = (Inr names, w6)"
    and "names_getitem names (current_device user) = Inr name"
    and "current_side user = Left \<or> current_side user = Right \<and> cp = Eightslp"
  shows "initialize cp self st w =
     (Inr (), self3\<lparr>priv_bed_name := Some name\<rparr>,
      st\<lparr>Client_sides := (Client_sides st)
             (Left \<mapsto> next_addr st, Right \<mapsto> Suc (next_addr st)),
         heap := (heap st)
           (next_addr st \<mapsto>
              \<lparr>status = left_status device, temperature = left_current device,
               target = left_target device, priv_side = Left,
               priv_user_id =
                 (if current_side user = Left then priv_account_user_id self
                  else Some (''guest-'' @ py_str w4 (current_device user) @ ''-left''))\<rparr>,
            Suc (next_addr st) \<mapsto>
              \<lparr>status = right_status device, temperature = right_current device,
               target = right_target device, priv_side = Right,
               priv_user_id =
                 (if current_side user = Right then priv_account_user_id self
                  else Some (''guest-'' @ py_str w4 (current_device user) @ ''-right''))\<rparr>),
         next_addr := Suc (Suc (next_addr st))\<rparr>, w6)"
proof -
  have k: "priv_account_user_id self3 = priv_account_user_id self"
    using assms(1,3,5) by (auto dest!: token_keeps)
  show ?thesis
    using assms k
    by (auto simp add: initialize_def Let_def BedStatus_new_def sides_setitem_def
        BedSide_value_def)
qed

lemma initialize_8slp_right:
  assumes "Client_token self w = (Inr t1, self1, w1)"
    and "get_user (json_of (priv_account_user_id self1)) t1 w1 = (Inr user, w2)"
    and "Client_token self1 w2 = (Inr t2, self2, w3)"
    and "get_device Slp8 (current_device user) t2 w3 = (Inr device, w4)"
    and "Client_token self2 w4 = (Inr t3, self3, w5)"
    and "get_device_names (json_of (priv_account_user_id self3)) t3 w5 = (Inr names, w6)"
    and "names_getitem names (current_device user) = Inr name"
    and "current_side user = Right"
  shows "fst (initialize Slp8 self st w) = Inl (AttributeError ''right'')"
  using assms
  by (simp add: initialize_def Let_def BedStatus_new_def sides_setitem_def)

text \<open>
  Claim C2 on a user who occupies the right side. The first copy raises AttributeError
  at \<open>BedSide.right\<close>: the left entry is bound to the guest id, and no entry exists for
  the right side. The second copy, on the same replies, binds the left side to the guest
  id \<open>guest-d1-left\<close> and the right side to the account.
\<close>

theorem initialize_right_side:
  "(case initialize Slp8 demo_client empty_store (demo_world ''right'' 3600) of
      (r, c', st', w') \<Rightarrow>
        r = Inl (AttributeError ''right'')
        \<and> sides c' st' Right = None
        \<and> sides_getitem c' st' Left =
            Inr (0, \<lparr>status = On, temperature = PyFloat 4, target = PyFloat 3,
                     priv_side = Left, priv_user_id = Some ''guest-d1-left''\<rparr>))
   \<and> (case initialize Eightslp demo_client empty_store (demo_world ''right'' 3600) of
      (r, c', st', w') \<Rightarrow>
        r = Inr ()
        \<and> sides_getitem c' st' Left =
            Inr (0, \<lparr>status = On, temperature = PyFloat 4, target = PyFloat 3,
                     priv_side = Left, priv_user_id = Some ''guest-d1-left''\<rparr>)
        \<and> sides_getitem c' st' Right =
            Inr (1, \<lparr>status = Off, temperature = PyFloat 6, target = PyFloat (- 2),
                     priv_side = Right, priv_user_id = Some ''u1''\<rparr>))"
  by (simp add: eval_defs demo_defs demo_client_def)





lemma refresh_state_steps:
  assumes "Client_token self w = (Inr t1, self1, w1)"
    and "get_user (json_of (priv_account_user_id self1)) t1 w1 = (Inr user, w2)"
    and "Client_token self1 w2 = (Inr t2, self2, w3)"
    and "get_device cp (current_device user) t2 w3 = (Inr device, w4)"
    and "Client_sides st Left = Some l" and "heap st l = Some bl"
    and "Client_sides st Right = Some r" and "heap st r = Some br"
    and "l \<noteq> r"
  shows "refresh_state cp self st w =
     (Inr (), self2,
      st\<lparr>heap := (heap st)
        (r \<mapsto> br\<lparr>status := right_status device, temperature := right_current device,
                  target := right_target device\<rparr>,
         l \<mapsto> bl\<lparr>status := left_status device, temperature := left_current device,
                  target := left_target device\<rparr>)\<rparr>, w4)"
  using assms
  by (simp add: refresh_state_def sides_getitem_def sides_def setattr_def Let_def fun_upd_twist)

text \<open>
  Claim C9, for a store that has an object for each side (two different objects) and a
  run in which the two gateway calls of \<open>refresh_state\<close> return the snapshot
  \<open>device\<close>. The side map is unchanged, so the same two objects are still the entries;
  their status, temperature and target are those of the snapshot, and the owning user id
  and the side of each are what they were.
\<close>

theorem refresh_state_overwrites:
  assumes "Client_token self w = (Inr t1, self1, w1)"
    and "get_user (json_of (priv_account_user_id self1)) t1 w1 = (Inr user, w2)"
    and "Client_token self1 w2 = (Inr t2, self2, w3)"
    and "get_device cp (current_device user) t2 w3 = (Inr device, w4)"
    and "sides self st Left = Some l" and "heap st l = Some bl"
    and "sides self st Right = Some r" and "heap st r = Some br"
    and "l \<noteq> r"
  shows "\<exists>st' bl' br'. refresh_state cp self st w = (Inr (), self2, st', w4)
      \<and> sides self2 st' = sides self st
      \<and> heap st' l = Some bl' \<and> heap st' r = Some br'
      \<and> status bl' = left_status device \<and> temperature bl' = left_current device
      \<and> target bl' = left_target device
      \<and> priv_user_id bl' = priv_user_id bl \<and> priv_side bl' = priv_side bl
      \<and> status br' = right_status device \<and> temperature br' = right_current device
      \<and> target br' = right_target device
      \<and> priv_user_id br' = priv_user_id br \<and> priv_side br' = priv_side br"
proof -
  have "refresh_state cp self st w =
     (Inr (), self2,
      st\<lparr>heap := (heap st)
        (r \<mapsto> br\<lparr>status := right_status device, temperature := right_current device,
                  target := right_target device\<rparr>,
         l \<mapsto> bl\<lparr>status := left_status device, temperature := left_current device,
                  target := left_target device\<rparr>)\<rparr>, w4)"
    using assms by (intro refresh_state_steps) (simp_all add: sides_def)
  then show ?thesis
    using assms(9) by (simp add: sides_def)
qed

theorem refresh_state_overwrites_witness:
  "\<exists>st' w'. refresh_state Eightslp demo_client
        (demo_store\<lparr>heap := (heap demo_store)
           (0 \<mapsto> \<lparr>status = Off, temperature = PyFloat 0, target = PyFloat 0,
                    priv_side = Left, priv_user_id = Some ''u1''\<rparr>)\<rparr>)
        (demo_world ''left'' 3600) =
       (Inr (), demo_client\<lparr>priv_access_token := JStr ''tok'',
                            priv_expires_at := 63900003501000000\<rparr>, st', w')
     \<and> heap st' 0 = Some \<lparr>status = On, temperature = PyFloat 4, target = PyFloat 3,
                           priv_side = Left, priv_user_id = Some ''u1''\<rparr>
     \<and> heap st' 1 = Some \<lparr>status = Off, temperature = PyFloat 6, target = PyFloat (- 2),
                           priv_side = Right, priv_user_id = Some ''guest-d1-right''\<rparr>"
proof -
  let ?c1 = "demo_client\<lparr>priv_access_token := JStr ''tok'',
                          priv_expires_at := 63900003501000000\<rparr>"
  let ?w1 = "(demo_world ''left'' 3600)\<lparr>sent := [refresh_request (Some ''r'')], ticks := 2\<rparr>"
  let ?user = "\<lparr>device_ids = JList [JStr ''d1''], current_device = JStr ''d1'',
                current_side = Left\<rparr>"
  let ?w2 = "snd (get_user (json_of (priv_account_user_id ?c1)) (JStr ''tok'') ?w1)"
  let ?w3 = "?w2\<lparr>ticks := 3\<rparr>"
  let ?device = "\<lparr>left_status = On, left_target = PyFloat 3, left_current = PyFloat 4,
        left_duration = PyJson (JInt 0), right_status = Off,
        right_target = PyFloat (- 2), right_current = PyFloat 6,
        right_duration = PyJson (JInt 7)\<rparr>"
  let ?w4 = "snd (get_device Eightslp (current_device ?user) (JStr ''tok'') ?w3)"
  let ?st = "demo_store\<lparr>heap := (heap demo_store)
           (0 \<mapsto> \<lparr>status = Off, temperature = PyFloat 0, target = PyFloat 0,
                    priv_side = Left, priv_user_id = Some ''u1''\<rparr>)\<rparr>"
  have u: "get_user (json_of (priv_account_user_id ?c1)) (JStr ''tok'') ?w1 = (Inr ?user, ?w2)"
    by (simp add: prod_eq_iff eval_defs demo_defs demo_client_def)
  have t2: "Client_token ?c1 ?w2 = (Inr (JStr ''tok''), ?c1, ?w3)"
    by (simp add: eval_defs demo_defs demo_client_def)
  have d: "get_device Eightslp (current_device ?user) (JStr ''tok'') ?w3 = (Inr ?device, ?w4)"
    by (simp add: prod_eq_iff eval_defs demo_defs demo_client_def)
  have l: "sides demo_client ?st Left = Some 0"
    and r: "sides demo_client ?st Right = Some 1"
    and hl: "heap ?st 0 = Some \<lparr>status = Off, temperature = PyFloat 0, target = PyFloat 0,
                    priv_side = Left, priv_user_id = Some ''u1''\<rparr>"
    and hr: "heap ?st 1 = Some \<lparr>status = Off, temperature = PyFloat 6, target = PyFloat (- 2),
         priv_side = Right, priv_user_id = Some ''guest-d1-right''\<rparr>"
    by (simp_all add: sides_def demo_store_def)
  have ne: "(0::nat) \<noteq> 1" by simp
  from refresh_state_overwrites [OF demo_token u t2 d l hl r hr ne]
  obtain st' bl' br' where
    "refresh_state Eightslp demo_client ?st (demo_world ''left'' 3600) = (Inr (), ?c1, st', ?w4)"
    "heap st' 0 = Some bl'" "heap st' 1 = Some br'"
    "status bl' = On" "temperature bl' = PyFloat 4" "target bl' = PyFloat 3"
    "priv_user_id bl' = Some ''u1''" "priv_side bl' = Left"
    "status br' = Off" "temperature br' = PyFloat 6" "target br' = PyFloat (- 2)"
    "priv_user_id br' = Some ''guest-d1-right''" "priv_side br' = Right"
    by auto
  then show ?thesis
    by (intro exI [of _ st'] exI [of _ ?w4]) (cases bl', cases br', simp)
qed

text \<open>
  Claim C5. Any two instances read the same side map. After \<open>initialize\<close> has
  returned on an instance \<open>c2\<close>, the entries another instance \<open>c1\<close> reads are the two
  objects that call created, one of them owned by the account of \<open>c2\<close>. After
  \<open>refresh_state\<close> on \<open>c2\<close>, whose gateway calls return the snapshot \<open>device\<close>, the
  entries \<open>c1\<close> reads carry the status, temperature and target of that snapshot.
\<close>

theorem sides_is_shared:
  "sides c1 st = sides c2 st
   \<and> (initialize cp c2 st w = (Inr (), c2', st', w') \<longrightarrow>
        (\<exists>bl br. sides c1 st' Left = Some (next_addr st)
           \<and> sides c1 st' Right = Some (Suc (next_addr st))
           \<and> heap st' (next_addr st) = Some bl \<and> heap st' (Suc (next_addr st)) = Some br
           \<and> priv_side bl = Left \<and> priv_side br = Right
           \<and> (priv_user_id bl = priv_account_user_id c2
               \<or> priv_user_id br = priv_account_user_id c2)))
   \<and> (Client_token c2 w = (Inr t1, s1, w1)
        \<and> get_user (json_of (priv_account_user_id s1)) t1 w1 = (Inr user, w2)
        \<and> Client_token s1 w2 = (Inr t2, s2, w3)
        \<and> get_device cp (current_device user) t2 w3 = (Inr device, w4)
        \<and> sides c1 st Left = Some l \<and> heap st l = Some bl
        \<and> sides c1 st Right = Some r \<and> heap st r = Some br \<and> l \<noteq> r \<longrightarrow>
        (\<exists>st''. refresh_state cp c2 st w = (Inr (), s2, st'', w4)
           \<and> sides_getitem c1 st'' Left =
               Inr (l, bl\<lparr>status := left_status device, temperature := left_current device,
                          target := left_target device\<rparr>)
           \<and> sides_getitem c1 st'' Right =
               Inr (r, br\<lparr>status := right_status device, temperature := right_current device,
                          target := right_target device\<rparr>)))"
proof (intro conjI impI)
  show "sides c1 st = sides c2 st"
    by (simp add: sides_def)
next
  assume "initialize cp c2 st w = (Inr (), c2', st', w')"
  from initialize_success [OF this]
  show "\<exists>bl br. sides c1 st' Left = Some (next_addr st)
           \<and> sides c1 st' Right = Some (Suc (next_addr st))
           \<and> heap st' (next_addr st) = Some bl \<and> heap st' (Suc (next_addr st)) = Some br
           \<and> priv_side bl = Left \<and> priv_side br = Right
           \<and> (priv_user_id bl = priv_account_user_id c2
               \<or> priv_user_id br = priv_account_user_id c2)"
    by (auto simp add: sides_def)
next
  assume h: "Client_token c2 w = (Inr t1, s1, w1)
        \<and> get_user (json_of (priv_account_user_id s1)) t1 w1 = (Inr user, w2)
        \<and> Client_token s1 w2 = (Inr t2, s2, w3)
        \<and> get_device cp (current_device user) t2 w3 = (Inr device, w4)
        \<and> sides c1 st Left = Some l \<and> heap st l = Some bl
        \<and> sides c1 st Right = Some r \<and> heap st r = Some br \<and> l \<noteq> r"
  have "refresh_state cp c2 st w =
     (Inr (), s2,
      st\<lparr>heap := (heap st)
        (r \<mapsto> br\<lparr>status := right_status device, temperature := right_current device,
                  target := right_target device\<rparr>,
         l \<mapsto> bl\<lparr>status := left_status device, temperature := left_current device,
                  target := left_target device\<rparr>)\<rparr>, w4)"
    by (rule refresh_state_steps [where ?t1.0 = t1 and ?self1.0 = s1 and ?w1.0 = w1
          and user = user and ?w2.0 = w2 and ?t2.0 = t2 and ?w3.0 = w3])
       (use h in \<open>simp_all add: sides_def\<close>)
  then show "\<exists>st''. refresh_state cp c2 st w = (Inr (), s2, st'', w4)
           \<and> sides_getitem c1 st'' Left =
               Inr (l, bl\<lparr>status := left_status device, temperature := left_current device,
                          target := left_target device\<rparr>)
           \<and> sides_getitem c1 st'' Right =
               Inr (r, br\<lparr>status := right_status device, temperature := right_current device,
                          target := right_target device\<rparr>)"
    using h by (simp add: sides_getitem_def sides_def)
qed

theorem sides_is_shared_witness:
  "sides other_client demo_store = sides demo_client demo_store
   \<and> (\<exists>bl br. sides other_client
            (fst (snd (snd (initialize Eightslp demo_client empty_store (demo_world ''left'' 3600)))))
            Left = Some 0
      \<and> heap (fst (snd (snd (initialize Eightslp demo_client empty_store (demo_world ''left'' 3600)))))
            0 = Some bl
      \<and> heap (fst (snd (snd (initialize Eightslp demo_client empty_store (demo_world ''left'' 3600)))))
            1 = Some br
      \<and> (priv_user_id bl = Some ''u1'' \<or> priv_user_id br = Some ''u1''))
   \<and> (\<exists>st'' w''. refresh_state Eightslp demo_client
            (demo_store\<lparr>heap := (heap demo_store)
               (0 \<mapsto> \<lparr>status = Off, temperature = PyFloat 0, target = PyFloat 0,
                        priv_side = Left, priv_user_id = Some ''u1''\<rparr>)\<rparr>)
            (demo_world ''left'' 3600) =
          (Inr (), demo_client\<lparr>priv_access_token := JStr ''tok'',
                               priv_expires_at := 63900003501000000\<rparr>, st'', w'')
      \<and> sides_getitem other_client st'' Left =
          Inr (0, \<lparr>status = On, temperature = PyFloat 4, target = PyFloat 3,
                   priv_side = Left, priv_user_id = Some ''u1''\<rparr>))"
proof -
  let ?I = "initialize Eightslp demo_client empty_store (demo_world ''left'' 3600)"
  let ?c1 = "demo_client\<lparr>priv_access_token := JStr ''tok'',
                          priv_expires_at := 63900003501000000\<rparr>"
  let ?w1 = "(demo_world ''left'' 3600)\<lparr>sent := [refresh_request (Some ''r'')], ticks := 2\<rparr>"
  let ?user = "\<lparr>device_ids = JList [JStr ''d1''], current_device = JStr ''d1'',
                current_side = Left\<rparr>"
  let ?w2 = "snd (get_user (json_of (priv_account_user_id ?c1)) (JStr ''tok'') ?w1)"
  let ?w3 = "?w2\<lparr>ticks := 3\<rparr>"
  let ?device = "\<lparr>left_status = On, left_target = PyFloat 3, left_current = PyFloat 4,
        left_duration = PyJson (JInt 0), right_status = Off,
        right_target = PyFloat (- 2), right_current = PyFloat 6,
        right_duration = PyJson (JInt 7)\<rparr>"
  let ?w4 = "snd (get_device Eightslp (current_device ?user) (JStr ''tok'') ?w3)"
  let ?bl = "\<lparr>status = Off, temperature = PyFloat 0, target = PyFloat 0,
                    priv_side = Left, priv_user_id = Some ''u1''\<rparr>"
  let ?br = "\<lparr>status = Off, temperature = PyFloat 6, target = PyFloat (- 2),
         priv_side = Right, priv_user_id = Some ''guest-d1-right''\<rparr>"
  let ?st = "demo_store\<lparr>heap := (heap demo_store)(0 \<mapsto> ?bl)\<rparr>"
  have i: "?I = (Inr (), fst (snd ?I), fst (snd (snd ?I)), snd (snd (snd ?I)))"
    by (simp add: prod_eq_iff eval_defs demo_defs demo_client_def)
  have u: "get_user (json_of (priv_account_user_id ?c1)) (JStr ''tok'') ?w1 = (Inr ?user, ?w2)"
    by (simp add: prod_eq_iff eval_defs demo_defs demo_client_def)
  have t2: "Client_token ?c1 ?w2 = (Inr (JStr ''tok''), ?c1, ?w3)"
    by (simp add: eval_defs demo_defs demo_client_def)
  have d: "get_device Eightslp (current_device ?user) (JStr ''tok'') ?w3 = (Inr ?device, ?w4)"
    by (simp add: prod_eq_iff eval_defs demo_defs demo_client_def)
  have l: "sides other_client ?st Left = Some 0"
    and r: "sides other_client ?st Right = Some 1"
    and hl: "heap ?st 0 = Some ?bl"
    and hr: "heap ?st 1 = Some ?br"
    by (simp_all add: sides_def demo_store_def)
  have a: "sides other_client demo_store = sides demo_client demo_store"
    using sides_is_shared [of other_client demo_store demo_client] by simp
  have b: "\<exists>bl br. sides other_client (fst (snd (snd ?I))) Left = Some 0
      \<and> heap (fst (snd (snd ?I))) 0 = Some bl
      \<and> heap (fst (snd (snd ?I))) 1 = Some br
      \<and> (priv_user_id bl = Some ''u1'' \<or> priv_user_id br = Some ''u1'')"
    using sides_is_shared [where ?c1.0 = other_client and ?c2.0 = demo_client
        and cp = Eightslp and st = empty_store and w = "demo_world ''left'' 3600"
        and c2' = "fst (snd ?I)" and st' = "fst (snd (snd ?I))" and w' = "snd (snd (snd ?I))"
        and ?t1.0 = JNull and ?s1.0 = demo_client and ?w1.0 = ?w1 and user = ?user
        and ?w2.0 = ?w2 and ?t2.0 = JNull and ?s2.0 = demo_client and ?w3.0 = ?w3
        and device = ?device and ?w4.0 = ?w4 and l = 0 and bl = ?bl and r = 0 and br = ?br] i
    by (simp only: ) (auto simp add: empty_store_def demo_client_def)
  have c: "\<exists>st''. refresh_state Eightslp demo_client ?st (demo_world ''left'' 3600) =
          (Inr (), ?c1, st'', ?w4)
      \<and> sides_getitem other_client st'' Left =
          Inr (0, \<lparr>status = On, temperature = PyFloat 4, target = PyFloat 3,
                   priv_side = Left, priv_user_id = Some ''u1''\<rparr>)"
    using sides_is_shared [where ?c1.0 = other_client and ?c2.0 = demo_client
        and cp = Eightslp and st = ?st and w = "demo_world ''left'' 3600"
        and ?t1.0 = "JStr ''tok''" and ?s1.0 = ?c1 and ?w1.0 = ?w1 and user = ?user
        and ?w2.0 = ?w2 and ?t2.0 = "JStr ''tok''" and ?s2.0 = ?c1 and ?w3.0 = ?w3
        and device = ?device and ?w4.0 = ?w4 and l = 0 and bl = ?bl and r = 1 and br = ?br
        and c2' = demo_client and st' = empty_store and w' = "demo_world ''left'' 3600"]
      demo_token [of "''left''"] u t2 d l r hl hr
    by (simp only: ) auto
  from a b c show ?thesis by blast
qed

text \<open>
  Claim C6. A reported int level \<open>v\<close> (of magnitude at most \<open>2 ^ 53\<close>, where the
  division is exact) becomes the float whose value is the integer
  \<open>round(v, -1) div 10\<close>, the rounding going to a multiple of ten at distance at most 5;
  the level 42 becomes 4. With the account on the left side, \<open>initialize\<close> stores as
  the current temperature of the left side 4 (level 42) in both copies; for the right
  side, whose level is 55 and whose heating duration is 7, the second copy stores 6 and
  the first copy stores the duration 7.
\<close>

theorem public_temperature_of_levels:
  "(\<bar>v\<bar> \<le> 2 ^ 53 \<longrightarrow> level_of (JInt v) = Inr (PyFloat (of_int (round_int_m1 v div 10))))
   \<and> round_int_m1 v mod 10 = 0 \<and> \<bar>round_int_m1 v - v\<bar> \<le> 5
   \<and> level_of (JInt 42) = Inr (PyFloat 4)
   \<and> (case initialize Slp8 demo_client empty_store (demo_world ''left'' 3600) of
        (r, c', st', w') \<Rightarrow>
          r = Inr ()
          \<and> sides_getitem c' st' Left =
              Inr (0, \<lparr>status = On, temperature = PyFloat 4, target = PyFloat 3,
                       priv_side = Left, priv_user_id = Some ''u1''\<rparr>)
          \<and> sides_getitem c' st' Right =
              Inr (1, \<lparr>status = Off, temperature = PyJson (JInt 7), target = PyFloat (- 2),
                       priv_side = Right, priv_user_id = Some ''guest-d1-right''\<rparr>))
   \<and> (case initialize Eightslp demo_client empty_store (demo_world ''left'' 3600) of
        (r, c', st', w') \<Rightarrow>
          r = Inr ()
          \<and> sides_getitem c' st' Left =
              Inr (0, \<lparr>status = On, temperature = PyFloat 4, target = PyFloat 3,
                       priv_side = Left, priv_user_id = Some ''u1''\<rparr>)
          \<and> sides_getitem c' st' Right =
              Inr (1, \<lparr>status = Off, temperature = PyFloat 6, target = PyFloat (- 2),
                       priv_side = Right, priv_user_id = Some ''guest-d1-right''\<rparr>))"
proof (intro conjI impI)
  assume "\<bar>v\<bar> \<le> 2 ^ 53"
  then show "level_of (JInt v) = Inr (PyFloat (of_int (round_int_m1 v div 10)))"
    by (rule level_of_int)
next
  show "round_int_m1 v mod 10 = 0"
    by (rule round_int_m1_multiple)
  show "\<bar>round_int_m1 v - v\<bar> \<le> 5"
    by (rule round_int_m1_near)
  show "level_of (JInt 42) = Inr (PyFloat 4)"
    by (simp add: level_of_def py_round_m1_def round_int_m1_def bindE_def nearest_double_def)
qed (simp_all add: eval_defs demo_defs demo_client_def)

theorem public_temperature_of_levels_witness:
  "\<bar>55 :: int\<bar> \<le> 2 ^ 53 \<and> level_of (JInt 55) = Inr (PyFloat 6)
   \<and> round_int_m1 55 = 60 \<and> level_of (JInt 42) = Inr (PyFloat 4)"
  using public_temperature_of_levels [of 55]
  by (simp add: round_int_m1_def)

end
